theory Spec2Isabelle
  imports Main "HOL-Library.Multiset" "HOL-Library.Word"
begin

unbundle bit_operations_syntax

section \<open>Data model of the WCP controller\<close>

text \<open>
  The controller of \<^verbatim>\<open>pkg/csi/service/wcp/controller.go\<close> talks to collaborators of other
  packages (the virtual center manager, the volume manager, the request validators).
  Their answers are parameters of the model: every operation takes a record of the
  collaborators it calls, and returns its Go result together with the list of the calls
  it made, in the order it made them.
\<close>

record HostSystem =
  InventoryPath :: string

text \<open>
  A \<^verbatim>\<open>*cnsvsphere.DatastoreInfo\<close>: the datastore object it points to and \<^verbatim>\<open>Info.Url\<close>.
\<close>

record DatastoreInfo =
  Datastore :: string
  Url :: string

text \<open>
  Of a \<^verbatim>\<open>VirtualCenterConfig\<close> the controller reads the host and the credentials. The
  volume manager and the virtual center manager are interface values of other
  packages: the model keeps which object each one is.
\<close>

record VirtualCenterConfig =
  Host :: string
  Username :: string
  Password :: string

record VirtualCenter =
  Config :: VirtualCenterConfig

record Config =
  ClusterID :: string

type_synonym VolumeManager = nat
type_synonym VirtualCenterManager = nat

text \<open>
  \<^verbatim>\<open>common.Manager\<close>, the state shared by all requests. \<^verbatim>\<open>Init\<close> sets the four fields,
  and the reload stores a configuration only after checking that it is not nil: the
  model takes the fields as never nil.
\<close>

record Manager =
  VcenterConfig :: VirtualCenterConfig
  CnsConfig :: Config
  VolumeManager :: VolumeManager
  VcenterManager :: VirtualCenterManager

text \<open>
  Go's \<^verbatim>\<open>int64\<close> is an integer kept in range by wrapping: \<open>int64\<close> is the
  conversion to that range, applied after every operation that can leave it.
\<close>

definition int64 :: "int \<Rightarrow> int" where
  "int64 x = (x + 2 ^ 63) mod 2 ^ 64 - 2 ^ 63"

definition isInt64 :: "int \<Rightarrow> bool" where
  "isInt64 x = (- (2 ^ 63) \<le> x \<and> x < 2 ^ 63)"

record CapacityRange =
  RequiredBytes :: int
  LimitBytes :: int

text \<open>
  A Go \<^verbatim>\<open>map[string]string\<close> is the list of its entries, with distinct keys, in the
  order in which \<^verbatim>\<open>range\<close> happens to visit them (Go leaves that order open).
  Reading a key that is absent gives the empty string.
\<close>

type_synonym strmap = "(string \<times> string) list"

definition mapIndex :: "strmap \<Rightarrow> string \<Rightarrow> string" where
  "mapIndex m k = (case map_of m k of None \<Rightarrow> [] | Some v \<Rightarrow> v)"

record CreateVolumeRequest =
  Name :: string
  CapacityRange :: "CapacityRange option"
  Parameters :: strmap

text \<open>
  \<^verbatim>\<open>common.CreateVolumeSpec\<close> as the controller fills it. \<^verbatim>\<open>ScParams\<close> is always the
  empty \<^verbatim>\<open>StorageClassParams\<close> and is left out.
\<close>

record CreateVolumeSpec =
  CapacityMB :: int
  Name :: string
  StoragePolicyID :: string
  AffineToHost :: string
  VolumeType :: string

record Volume =
  VolumeId :: string
  CapacityBytes :: int
  VolumeContext :: strmap

record CreateVolumeResponse =
  Volume :: Volume

record ControllerPublishVolumeRequest =
  VolumeId :: string
  NodeId :: string

record ControllerPublishVolumeResponse =
  PublishContext :: strmap

record ControllerUnpublishVolumeRequest =
  VolumeId :: string
  NodeId :: string

record ControllerUnpublishVolumeResponse =
  Unused :: unit

type_synonym VirtualMachine = string

text \<open>
  An \<^verbatim>\<open>fsnotify.Event\<close>: \<^verbatim>\<open>Op\<close> is a \<^verbatim>\<open>uint32\<close> bit mask, in which the library
  gives \<^verbatim>\<open>Remove\<close> the third bit (\<^verbatim>\<open>Create\<close>, \<^verbatim>\<open>Write\<close>, \<^verbatim>\<open>Remove\<close>, \<^verbatim>\<open>Rename\<close>,
  \<^verbatim>\<open>Chmod\<close> are \<open>1\<close>, \<open>2\<close>, \<open>4\<close>, \<open>8\<close>, \<open>16\<close>).
\<close>

record Event =
  EventName :: string
  Op :: "32 word"

definition fsnotify_Create :: "32 word" where "fsnotify_Create = 1"
definition fsnotify_Write :: "32 word" where "fsnotify_Write = 2"
definition fsnotify_Remove :: "32 word" where "fsnotify_Remove = 4"
definition fsnotify_Rename :: "32 word" where "fsnotify_Rename = 8"
definition fsnotify_Chmod :: "32 word" where "fsnotify_Chmod = 16"

text \<open>
  Errors are values. \<^verbatim>\<open>fmt.Errorf\<close> and \<^verbatim>\<open>status.Errorf\<close> keep their format string and
  the arguments formatted into it; an error made by a collaborator is opaque.
\<close>

datatype code = Internal | Unimplemented

datatype error =
    Opaque string
  | Errorf string "arg list"
  | StatusErr code string "arg list"
and arg = AStr string | AErr error | AHost HostSystem

text \<open>
  A Go result pair \<^verbatim>\<open>(value, err)\<close>. A pointer is an option (\<open>None\<close> is nil); a
  slice is a list, the nil slice being the empty list (the code only takes its length
  and ranges over it).
\<close>

type_synonym 'a ret = "'a \<times> error option"

datatype call =
    CGetConfig
  | CGetVirtualCenterConfig "Config option"
  | CUnregisterAllVirtualCenters VirtualCenterManager
  | CRegisterVirtualCenter VirtualCenterManager VirtualCenterConfig
  | CGetVirtualCenterManager
  | CGetVirtualCenter VirtualCenterManager string
  | CResetManager VolumeManager "VirtualCenter option"
  | CGetManager "VirtualCenter option"
  | CGetVCenter Manager
  | CGetHostsByCluster string
  | CGetAllAccessibleDatastores HostSystem
  | CCreateBlockVolumeUtil Manager CreateVolumeSpec "DatastoreInfo list"
  | CGetVMUUIDFromPodListenerService string string
  | CConnect "VirtualCenter option"
  | CGetVMByInstanceUUIDInDatacenter "VirtualCenter option" string string
  | CAttachVolumeUtil Manager "VirtualMachine option" string

text \<open>
  The collaborators: the functions and constants of the other packages that the
  controller uses. A function stands for the answer the collaborator gives to a call.
  The validators and \<^verbatim>\<open>FormatDiskUUID\<close> only compute; the other functions are calls
  that reach the virtual center or the volume manager, and are listed when made.
\<close>

record Env =
  GetVCenter :: "Manager \<Rightarrow> VirtualCenter option ret"
  GetHostsByCluster :: "VirtualCenter option \<Rightarrow> string \<Rightarrow> HostSystem list ret"
  GetAllAccessibleDatastores :: "HostSystem \<Rightarrow> DatastoreInfo list ret"
  GetConfig :: "Config option ret"
  GetVirtualCenterConfig :: "Config option \<Rightarrow> VirtualCenterConfig option ret"
  UnregisterAllVirtualCenters :: "VirtualCenterManager \<Rightarrow> error option"
  RegisterVirtualCenter ::
    "VirtualCenterManager \<Rightarrow> VirtualCenterConfig \<Rightarrow> VirtualCenter option ret"
  GetVirtualCenterManager :: VirtualCenterManager
  GetVirtualCenter :: "VirtualCenterManager \<Rightarrow> string \<Rightarrow> VirtualCenter option ret"
  GetManager :: "VirtualCenter option \<Rightarrow> VolumeManager"
  validateWCPCreateVolumeRequest :: "CreateVolumeRequest \<Rightarrow> error option"
  validateWCPControllerPublishVolumeRequest ::
    "ControllerPublishVolumeRequest \<Rightarrow> error option"
  validateWCPControllerUnpublishVolumeRequest ::
    "ControllerUnpublishVolumeRequest \<Rightarrow> error option"
  CreateBlockVolumeUtil ::
    "Manager \<Rightarrow> CreateVolumeSpec \<Rightarrow> DatastoreInfo list \<Rightarrow> string ret"
  getVMUUIDFromPodListenerService :: "string \<Rightarrow> string \<Rightarrow> string ret"
  getDatacenterFromConfig :: "Config \<Rightarrow> strmap ret"
  Connect :: "VirtualCenter option \<Rightarrow> error option"
  getVMByInstanceUUIDInDatacenter ::
    "VirtualCenter option \<Rightarrow> string \<Rightarrow> string \<Rightarrow> VirtualMachine option ret"
  AttachVolumeUtil :: "Manager \<Rightarrow> VirtualMachine option \<Rightarrow> string \<Rightarrow> string ret"
  FormatDiskUUID :: "string \<Rightarrow> string"
  AttributeStoragePolicyID :: string
  AttributeAffineToHost :: string
  AttributeDiskType :: string
  AttributeFirstClassDiskUUID :: string
  DiskTypeBlockVolume :: string
  BlockVolumeType :: string

section \<open>Shared datastores of the cluster\<close>

text \<open>
  The inner loop of lines 485-491: is there an accessible datastore with the URL of
  \<open>sharedDs\<close>? The loop breaks at the first one.
\<close>

fun urlFound :: "DatastoreInfo \<Rightarrow> DatastoreInfo list \<Rightarrow> bool" where
  "urlFound sharedDs [] = False"
| "urlFound sharedDs (accessibleDs # rest) =
     (if Url sharedDs = Url accessibleDs then True else urlFound sharedDs rest)"

text \<open>The loop of lines 484-492, which builds \<^verbatim>\<open>sharedAccessibleDatastores\<close>.\<close>

fun sharedAccessible :: "DatastoreInfo list \<Rightarrow> DatastoreInfo list \<Rightarrow> DatastoreInfo list" where
  "sharedAccessible [] accessibleDatastores = []"
| "sharedAccessible (sharedDs # rest) accessibleDatastores =
     (if urlFound sharedDs accessibleDatastores
      then sharedDs # sharedAccessible rest accessibleDatastores
      else sharedAccessible rest accessibleDatastores)"

definition noSharedMsg :: string where
  "noSharedMsg = ''No shared datastores found in the Kubernetes cluster for host: %+v''"

definition emptyHostsMsg :: string where
  "emptyHostsMsg = ''Empty List of hosts returned from VC''"

text \<open>
  The loop over the hosts, lines 473-498, from the running \<^verbatim>\<open>sharedDatastores\<close>. The
  second component lists the calls made.
\<close>

fun hostLoop :: "Env \<Rightarrow> DatastoreInfo list \<Rightarrow> HostSystem list
    \<Rightarrow> DatastoreInfo list ret \<times> call list" where
  "hostLoop env sharedDatastores [] = ((sharedDatastores, None), [])"
| "hostLoop env sharedDatastores (host # hosts) =
     (case GetAllAccessibleDatastores env host of
        (accessibleDatastores, Some err) \<Rightarrow>
          (([], Some err), [CGetAllAccessibleDatastores host])
      | (accessibleDatastores, None) \<Rightarrow>
          (let shared' =
                 (if length sharedDatastores = 0 then accessibleDatastores
                  else sharedAccessible sharedDatastores accessibleDatastores)
           in if length shared' = 0
              then (([], Some (Errorf noSharedMsg [AHost host])),
                    [CGetAllAccessibleDatastores host])
              else (case hostLoop env shared' hosts of
                      (r, calls) \<Rightarrow> (r, CGetAllAccessibleDatastores host # calls))))"

definition getSharedDatastoresInPodVMK8SCluster ::
    "Env \<Rightarrow> Manager \<Rightarrow> DatastoreInfo list ret \<times> call list" where
  "getSharedDatastoresInPodVMK8SCluster env manager =
     (case GetVCenter env manager of
        (vc, Some err) \<Rightarrow> (([], Some err), [CGetVCenter manager])
      | (vc, None) \<Rightarrow>
          (case GetHostsByCluster env vc (ClusterID (CnsConfig manager)) of
             (hosts, Some err) \<Rightarrow>
               (([], Some err),
                [CGetVCenter manager, CGetHostsByCluster (ClusterID (CnsConfig manager))])
           | (hosts, None) \<Rightarrow>
               if length hosts = 0
               then (([], Some (Errorf emptyHostsMsg [])),
                     [CGetVCenter manager, CGetHostsByCluster (ClusterID (CnsConfig manager))])
               else (case hostLoop env [] hosts of
                       (r, calls) \<Rightarrow>
                         (r, CGetVCenter manager
                             # CGetHostsByCluster (ClusterID (CnsConfig manager)) # calls))))"


section \<open>Reloading the configuration\<close>

text \<open>
  A block of statements either returns from the function or falls through to the
  statement after it; both carry the manager as the block left it.
\<close>

datatype 'a flow = Returned 'a | Continue 'a

text \<open>Lines 175-177: the volume manager is reset and bound to \<open>vcenter\<close>.\<close>

definition rebindVolumeManager ::
    "Env \<Rightarrow> Manager \<Rightarrow> VirtualCenter option \<Rightarrow> VirtualCenterConfig \<Rightarrow> Manager \<times> call list" where
  "rebindVolumeManager env manager vcenter newVCConfig =
     (manager\<lparr>VolumeManager := GetManager env vcenter, VcenterConfig := newVCConfig\<rparr>,
      [CResetManager (VolumeManager manager) vcenter, CGetManager vcenter])"

text \<open>The block of lines 150-178, entered when \<open>newVCConfig\<close> is not nil.\<close>

definition reloadVirtualCenter ::
    "Env \<Rightarrow> Manager \<Rightarrow> VirtualCenterConfig \<Rightarrow> Manager flow \<times> call list" where
  "reloadVirtualCenter env manager newVCConfig =
     (if Host (VcenterConfig manager) \<noteq> Host newVCConfig \<or>
         Username (VcenterConfig manager) \<noteq> Username newVCConfig \<or>
         Password (VcenterConfig manager) \<noteq> Password newVCConfig
      then
        (case UnregisterAllVirtualCenters env (VcenterManager manager) of
           Some err \<Rightarrow>
             (Returned manager, [CUnregisterAllVirtualCenters (VcenterManager manager)])
         | None \<Rightarrow>
             (case RegisterVirtualCenter env (VcenterManager manager) newVCConfig of
                (vcenter, Some err) \<Rightarrow>
                  (Returned manager,
                   [CUnregisterAllVirtualCenters (VcenterManager manager),
                    CRegisterVirtualCenter (VcenterManager manager) newVCConfig])
              | (vcenter, None) \<Rightarrow>
                  (case rebindVolumeManager env
                          (manager\<lparr>VcenterManager := GetVirtualCenterManager env\<rparr>)
                          vcenter newVCConfig of
                     (manager', calls) \<Rightarrow>
                       (Continue manager',
                        [CUnregisterAllVirtualCenters (VcenterManager manager),
                         CRegisterVirtualCenter (VcenterManager manager) newVCConfig,
                         CGetVirtualCenterManager] @ calls))))
      else
        (case GetVirtualCenter env (VcenterManager manager) (Host newVCConfig) of
           (vcenter, Some err) \<Rightarrow>
             (Returned manager,
              [CGetVirtualCenter (VcenterManager manager) (Host newVCConfig)])
         | (vcenter, None) \<Rightarrow>
             (case rebindVolumeManager env manager vcenter newVCConfig of
                (manager', calls) \<Rightarrow>
                  (Continue manager',
                   CGetVirtualCenter (VcenterManager manager) (Host newVCConfig) # calls))))"

text \<open>
  \<^verbatim>\<open>ReloadConfiguration\<close> returns nothing: its result is the manager it leaves behind.
\<close>

definition ReloadConfiguration :: "Env \<Rightarrow> Manager \<Rightarrow> Manager \<times> call list" where
  "ReloadConfiguration env manager =
     (case GetConfig env of
        (cfg, Some err) \<Rightarrow> (manager, [CGetConfig])
      | (cfg, None) \<Rightarrow>
          (case GetVirtualCenterConfig env cfg of
             (newVCConfig, Some err) \<Rightarrow> (manager, [CGetConfig, CGetVirtualCenterConfig cfg])
           | (newVCConfig, None) \<Rightarrow>
               (case (case newVCConfig of
                        None \<Rightarrow> (Continue manager, [])
                      | Some new \<Rightarrow> reloadVirtualCenter env manager new) of
                  (Returned manager', calls) \<Rightarrow>
                    (manager', [CGetConfig, CGetVirtualCenterConfig cfg] @ calls)
                | (Continue manager', calls) \<Rightarrow>
                    ((case cfg of
                        None \<Rightarrow> manager'
                      | Some c \<Rightarrow> manager'\<lparr>CnsConfig := c\<rparr>),
                     [CGetConfig, CGetVirtualCenterConfig cfg] @ calls))))"

section \<open>The configuration watcher\<close>

text \<open>
  What the \<^verbatim>\<open>select\<close> of lines 107-121 receives, in the order in which it receives it:
  a value of one of the two channels, or the news that a channel is closed.
\<close>

datatype received = EventMsg Event | EventsClosed | ErrorMsg error | ErrorsClosed

datatype trace = Waiting | GotEvent Event | Reload | Processed | ErrorLogged

text \<open>
  The loop of lines 105-123. \<open>reload\<close> is \<^verbatim>\<open>c.ReloadConfiguration\<close> as a function of the
  controller's state. When nothing is left to receive the goroutine waits.
\<close>

fun watchLoop :: "('s \<Rightarrow> 's) \<Rightarrow> received list \<Rightarrow> 's \<Rightarrow> 's \<times> trace list" where
  "watchLoop reload [] s = (s, [Waiting])"
| "watchLoop reload (EventsClosed # rest) s = (s, [Waiting])"
| "watchLoop reload (EventMsg event # rest) s =
     (if Op event AND fsnotify_Remove = fsnotify_Remove
      then (case watchLoop reload rest (reload s) of
              (s', t) \<Rightarrow> (s', [Waiting, GotEvent event, Reload, Processed] @ t))
      else (case watchLoop reload rest s of
              (s', t) \<Rightarrow> (s', [Waiting, GotEvent event, Processed] @ t)))"
| "watchLoop reload (ErrorMsg err # rest) s =
     (case watchLoop reload rest s of (s', t) \<Rightarrow> (s', [Waiting, Processed] @ t))"
| "watchLoop reload (ErrorsClosed # rest) s = (s, [Waiting, ErrorLogged])"

section \<open>CreateVolume\<close>

text \<open>
  Modelled from the spec: the constants \<^verbatim>\<open>common.DefaultGbDiskSize\<close>, \<^verbatim>\<open>common.GbInBytes\<close>
  and \<^verbatim>\<open>common.MbInBytes\<close>, which the source file uses and does not define. The spec
  fixes the default size at 10 GiB and the allocation unit at one MB.
\<close>

definition DefaultGbDiskSize :: int where "DefaultGbDiskSize = 10"
definition GbInBytes :: int where "GbInBytes = 1024 * 1024 * 1024"
definition MbInBytes :: int where "MbInBytes = 1024 * 1024"

text \<open>
  Modelled from the spec: \<^verbatim>\<open>common.RoundUpSize\<close>, which the source file calls and does
  not define. The spec says that the capacity is rounded up to the allocation unit:
  the result is the least number of units that hold \<open>volumeSizeBytes\<close>.
\<close>

definition RoundUpSize :: "int \<Rightarrow> int \<Rightarrow> int" where
  "RoundUpSize volumeSizeBytes allocationUnitBytes =
     int64 (- ((- volumeSizeBytes) div allocationUnitBytes))"

text \<open>
  \<^verbatim>\<open>strings.ToLower\<close> on ASCII text: the letters \<^verbatim>\<open>A\<close> to \<^verbatim>\<open>Z\<close> (bytes 65 to 90)
  move to \<^verbatim>\<open>a\<close> to \<^verbatim>\<open>z\<close>, which is 32 more and sets the sixth bit of the byte;
  every other byte stays.
\<close>

definition toLowerChar :: "char \<Rightarrow> char" where
  "toLowerChar c =
     (if 65 \<le> (of_char c :: nat) \<and> (of_char c :: nat) \<le> 90
      then Char (digit0 c) (digit1 c) (digit2 c) (digit3 c) (digit4 c) True (digit6 c) (digit7 c)
      else c)"

definition ToLower :: "string \<Rightarrow> string" where
  "ToLower s = map toLowerChar s"

text \<open>
  The loop of lines 211-218 over the names of the parameters, from the current values
  of \<open>storagePolicyID\<close> and \<open>affineToHost\<close>.
\<close>

fun scanParameters :: "Env \<Rightarrow> strmap \<Rightarrow> string list \<Rightarrow> string \<times> string \<Rightarrow> string \<times> string" where
  "scanParameters env parameters [] (storagePolicyID, affineToHost) =
     (storagePolicyID, affineToHost)"
| "scanParameters env parameters (paramName # rest) (storagePolicyID, affineToHost) =
     (if ToLower paramName = AttributeStoragePolicyID env
      then scanParameters env parameters rest (mapIndex parameters paramName, affineToHost)
      else if ToLower paramName = AttributeAffineToHost env
      then scanParameters env parameters rest
             (storagePolicyID, mapIndex parameters (AttributeAffineToHost env))
      else scanParameters env parameters rest (storagePolicyID, affineToHost))"

definition volSizeBytesOf :: "CreateVolumeRequest \<Rightarrow> int" where
  "volSizeBytesOf req =
     (case CapacityRange req of
        None \<Rightarrow> int64 (DefaultGbDiskSize * GbInBytes)
      | Some capacityRange \<Rightarrow>
          if RequiredBytes capacityRange \<noteq> 0 then RequiredBytes capacityRange
          else int64 (DefaultGbDiskSize * GbInBytes))"

definition createVolumeSpecOf :: "Env \<Rightarrow> CreateVolumeRequest \<Rightarrow> CreateVolumeSpec" where
  "createVolumeSpecOf env req =
     (case scanParameters env (Parameters req) (map fst (Parameters req)) ([], []) of
        (storagePolicyID, affineToHost) \<Rightarrow>
          \<lparr>CapacityMB = RoundUpSize (volSizeBytesOf req) MbInBytes,
           Name = CreateVolumeRequest.Name req,
           StoragePolicyID = storagePolicyID,
           AffineToHost = affineToHost,
           VolumeType = BlockVolumeType env\<rparr>)"

definition CreateVolume ::
    "Env \<Rightarrow> Manager \<Rightarrow> CreateVolumeRequest \<Rightarrow> CreateVolumeResponse option ret \<times> call list" where
  "CreateVolume env manager req =
     (case validateWCPCreateVolumeRequest env req of
        Some err \<Rightarrow> ((None, Some err), [])
      | None \<Rightarrow>
          (let createVolumeSpec = createVolumeSpecOf env req in
           case getSharedDatastoresInPodVMK8SCluster env manager of
             ((sharedDatastores, Some err), calls) \<Rightarrow>
               ((None, Some (StatusErr Internal
                   ''failed to obtain shared datastores. Error: %+v'' [AErr err])), calls)
           | ((sharedDatastores, None), calls) \<Rightarrow>
               (case CreateBlockVolumeUtil env manager createVolumeSpec sharedDatastores of
                  (volumeID, Some err) \<Rightarrow>
                    ((None, Some (StatusErr Internal
                        ''failed to create volume. Error: %+v'' [AErr err])),
                     calls @ [CCreateBlockVolumeUtil manager createVolumeSpec sharedDatastores])
                | (volumeID, None) \<Rightarrow>
                    ((Some \<lparr>Volume =
                         \<lparr>Volume.VolumeId = volumeID,
                          CapacityBytes = int64 (CapacityMB createVolumeSpec * MbInBytes),
                          VolumeContext = [(AttributeDiskType env, DiskTypeBlockVolume env)]\<rparr>\<rparr>,
                      None),
                     calls @ [CCreateBlockVolumeUtil manager createVolumeSpec
                                sharedDatastores]))))"


section \<open>ControllerPublishVolume and ControllerUnpublishVolume\<close>

text \<open>
  A Go function returns, or panics: reading a field through a nil pointer panics with
  a nil pointer dereference.
\<close>

datatype 'a outcome = Panic string | Return 'a

definition nilDereference :: string where
  "nilDereference = ''invalid memory address or nil pointer dereference''"

text \<open>
  The loop of lines 303-306 over \<open>vcdcMap\<close>: every entry overwrites both variables, so
  the last entry visited stays.
\<close>

fun lastDatacenter :: "strmap \<Rightarrow> string \<times> string \<Rightarrow> string \<times> string" where
  "lastDatacenter [] (vCenterHost, dcMorefValue) = (vCenterHost, dcMorefValue)"
| "lastDatacenter ((key, val) # rest) (vCenterHost, dcMorefValue) =
     lastDatacenter rest (key, val)"

text \<open>
  Lines 315-347, after the virtual center was found: \<open>calls\<close> are the calls made so far.
\<close>

definition attachToPodVM ::
    "Env \<Rightarrow> Manager \<Rightarrow> ControllerPublishVolumeRequest \<Rightarrow> string \<Rightarrow> string
      \<Rightarrow> VirtualCenter option \<Rightarrow> call list
      \<Rightarrow> ControllerPublishVolumeResponse option ret outcome \<times> call list" where
  "attachToPodVM env manager req vmuuid dcMorefValue vc calls =
     (case Connect env vc of
        Some err \<Rightarrow>
          (case vc of
             None \<Rightarrow> (Panic nilDereference, calls @ [CConnect vc])
           | Some v \<Rightarrow>
               (Return (None, Some (StatusErr Internal
                  ''failed to connect to Virtual Center: %s'' [AStr (Host (Config v))])),
                calls @ [CConnect vc]))
      | None \<Rightarrow>
          (case getVMByInstanceUUIDInDatacenter env vc dcMorefValue vmuuid of
             (podVM, Some err) \<Rightarrow>
               (Return (None, Some (StatusErr Internal
                  ''failed to the PodVM Moref from the PodVM UUID: %s in datacenter: %s with err: %+v''
                  [AStr vmuuid, AStr dcMorefValue, AErr err])),
                calls @ [CConnect vc,
                         CGetVMByInstanceUUIDInDatacenter vc dcMorefValue vmuuid])
           | (podVM, None) \<Rightarrow>
               (case AttachVolumeUtil env manager podVM
                       (ControllerPublishVolumeRequest.VolumeId req) of
                  (diskUUID, Some err) \<Rightarrow>
                    (Return (None, Some (StatusErr Internal
                       ''failed to attach volume with volumeID: %s. Error: %+v''
                       [AStr (ControllerPublishVolumeRequest.VolumeId req), AErr err])),
                     calls @ [CConnect vc,
                              CGetVMByInstanceUUIDInDatacenter vc dcMorefValue vmuuid,
                              CAttachVolumeUtil manager podVM
                                (ControllerPublishVolumeRequest.VolumeId req)])
                | (diskUUID, None) \<Rightarrow>
                    (Return (Some \<lparr>PublishContext =
                               [(AttributeDiskType env, DiskTypeBlockVolume env),
                                (AttributeFirstClassDiskUUID env,
                                 FormatDiskUUID env diskUUID)]\<rparr>,
                             None),
                     calls @ [CConnect vc,
                              CGetVMByInstanceUUIDInDatacenter vc dcMorefValue vmuuid,
                              CAttachVolumeUtil manager podVM
                                (ControllerPublishVolumeRequest.VolumeId req)]))))"

definition ControllerPublishVolume ::
    "Env \<Rightarrow> Manager \<Rightarrow> ControllerPublishVolumeRequest
      \<Rightarrow> ControllerPublishVolumeResponse option ret outcome \<times> call list" where
  "ControllerPublishVolume env manager req =
     (case validateWCPControllerPublishVolumeRequest env req of
        Some err \<Rightarrow> (Return (None, Some err), [])
      | None \<Rightarrow>
          (case getVMUUIDFromPodListenerService env
                  (ControllerPublishVolumeRequest.VolumeId req)
                  (ControllerPublishVolumeRequest.NodeId req) of
             (vmuuid, Some err) \<Rightarrow>
               (Return (None, Some (StatusErr Internal
                  ''failed to get the pod vmuuid annotation from the pod listener service when processing attach for volumeID: %s on node: %s. Error: %+v''
                  [AStr (ControllerPublishVolumeRequest.VolumeId req),
                   AStr (ControllerPublishVolumeRequest.NodeId req), AErr err])),
                [CGetVMUUIDFromPodListenerService
                   (ControllerPublishVolumeRequest.VolumeId req)
                   (ControllerPublishVolumeRequest.NodeId req)])
           | (vmuuid, None) \<Rightarrow>
               (case getDatacenterFromConfig env (CnsConfig manager) of
                  (vcdcMap, Some err) \<Rightarrow>
                    (Return (None, Some (StatusErr Internal
                       ''failed to get datacenter from config with error: %+v'' [AErr err])),
                     [CGetVMUUIDFromPodListenerService
                        (ControllerPublishVolumeRequest.VolumeId req)
                        (ControllerPublishVolumeRequest.NodeId req)])
                | (vcdcMap, None) \<Rightarrow>
                    (case lastDatacenter vcdcMap ([], []) of
                       (vCenterHost, dcMorefValue) \<Rightarrow>
                         (case GetVirtualCenter env (VcenterManager manager) vCenterHost of
                            (vc, Some err) \<Rightarrow>
                              (case vc of
                                 None \<Rightarrow>
                                   (Panic nilDereference,
                                    [CGetVMUUIDFromPodListenerService
                                       (ControllerPublishVolumeRequest.VolumeId req)
                                       (ControllerPublishVolumeRequest.NodeId req),
                                     CGetVirtualCenter (VcenterManager manager) vCenterHost])
                               | Some v \<Rightarrow>
                                   (Return (None, Some (StatusErr Internal
                                      ''Cannot get virtual center %s from virtualcentermanager while attaching disk with error %+v''
                                      [AStr (Host (Config v)), AErr err])),
                                    [CGetVMUUIDFromPodListenerService
                                       (ControllerPublishVolumeRequest.VolumeId req)
                                       (ControllerPublishVolumeRequest.NodeId req),
                                     CGetVirtualCenter (VcenterManager manager) vCenterHost]))
                          | (vc, None) \<Rightarrow>
                              attachToPodVM env manager req vmuuid dcMorefValue vc
                                [CGetVMUUIDFromPodListenerService
                                   (ControllerPublishVolumeRequest.VolumeId req)
                                   (ControllerPublishVolumeRequest.NodeId req),
                                 CGetVirtualCenter (VcenterManager manager) vCenterHost])))))"

text \<open>Lines 352-364: the request is validated and nothing else is done.\<close>

definition ControllerUnpublishVolume ::
    "Env \<Rightarrow> Manager \<Rightarrow> ControllerUnpublishVolumeRequest
      \<Rightarrow> ControllerUnpublishVolumeResponse option ret \<times> call list" where
  "ControllerUnpublishVolume env manager req =
     (case validateWCPControllerUnpublishVolumeRequest env req of
        Some err \<Rightarrow> ((None, Some err), [])
      | None \<Rightarrow> ((Some \<lparr>Unused = ()\<rparr>, None), []))"


section \<open>Notions used to state the properties\<close>

text \<open>The URLs of the datastores that a host reports, and whether its report came.\<close>

definition accessibleUrls :: "Env \<Rightarrow> HostSystem \<Rightarrow> string set" where
  "accessibleUrls env host = Url ` set (fst (GetAllAccessibleDatastores env host))"

definition fetchOk :: "Env \<Rightarrow> HostSystem \<Rightarrow> bool" where
  "fetchOk env host = (snd (GetAllAccessibleDatastores env host) = None)"

text \<open>The running shared set after one more host, lines 479-494.\<close>

definition nextShared :: "DatastoreInfo list \<Rightarrow> DatastoreInfo list \<Rightarrow> DatastoreInfo list" where
  "nextShared shared acc = (if length shared = 0 then acc else sharedAccessible shared acc)"


text \<open>
  The events that the watcher's loop receives before one of its channels is closed.
\<close>

fun delivered :: "received list \<Rightarrow> Event list" where
  "delivered [] = []"
| "delivered (EventMsg event # rest) = event # delivered rest"
| "delivered (ErrorMsg err # rest) = delivered rest"
| "delivered (EventsClosed # rest) = []"
| "delivered (ErrorsClosed # rest) = []"

section \<open>Concrete inputs\<close>

definition ex_cfgA :: VirtualCenterConfig where
  "ex_cfgA = \<lparr>Host = ''vc-a.example'', Username = ''administrator'', Password = ''secret-1''\<rparr>"

definition ex_cfgB :: VirtualCenterConfig where
  "ex_cfgB = \<lparr>Host = ''vc-b.example'', Username = ''administrator'', Password = ''secret-1''\<rparr>"

definition ex_vcA :: VirtualCenter where
  "ex_vcA = \<lparr>Config = ex_cfgA\<rparr>"

definition ex_config :: Config where
  "ex_config = \<lparr>ClusterID = ''domain-c8''\<rparr>"

definition ex_manager :: Manager where
  "ex_manager = \<lparr>VcenterConfig = ex_cfgA, CnsConfig = ex_config,
                  VolumeManager = 1, VcenterManager = 1\<rparr>"

definition ex_H1 :: HostSystem where "ex_H1 = \<lparr>InventoryPath = ''H1''\<rparr>"
definition ex_H2 :: HostSystem where "ex_H2 = \<lparr>InventoryPath = ''H2''\<rparr>"
definition ex_H3 :: HostSystem where "ex_H3 = \<lparr>InventoryPath = ''H3''\<rparr>"
definition ex_H4 :: HostSystem where "ex_H4 = \<lparr>InventoryPath = ''H4''\<rparr>"

text \<open>
  The datastores \<open>A\<close> to \<open>D\<close>. Each host reports its own \<^verbatim>\<open>DatastoreInfo\<close> objects, so
  what \<open>H2\<close> reports for \<open>B\<close> has the URL of what \<open>H1\<close> reports for it and is another
  object.
\<close>

definition ex_dsA :: DatastoreInfo where
  "ex_dsA = \<lparr>Datastore = ''A seen from H1'', Url = ''ds:///vmfs/volumes/A/''\<rparr>"
definition ex_dsB :: DatastoreInfo where
  "ex_dsB = \<lparr>Datastore = ''B seen from H1'', Url = ''ds:///vmfs/volumes/B/''\<rparr>"
definition ex_dsC :: DatastoreInfo where
  "ex_dsC = \<lparr>Datastore = ''C seen from H1'', Url = ''ds:///vmfs/volumes/C/''\<rparr>"
definition ex_dsB2 :: DatastoreInfo where
  "ex_dsB2 = \<lparr>Datastore = ''B seen from H2'', Url = ''ds:///vmfs/volumes/B/''\<rparr>"
definition ex_dsC2 :: DatastoreInfo where
  "ex_dsC2 = \<lparr>Datastore = ''C seen from H2'', Url = ''ds:///vmfs/volumes/C/''\<rparr>"
definition ex_dsD2 :: DatastoreInfo where
  "ex_dsD2 = \<lparr>Datastore = ''D seen from H2'', Url = ''ds:///vmfs/volumes/D/''\<rparr>"
definition ex_dsD3 :: DatastoreInfo where
  "ex_dsD3 = \<lparr>Datastore = ''D seen from H3'', Url = ''ds:///vmfs/volumes/D/''\<rparr>"

definition ex_accessible :: "HostSystem \<Rightarrow> DatastoreInfo list ret" where
  "ex_accessible host =
     (if InventoryPath host = ''H1'' then ([ex_dsA, ex_dsB, ex_dsC], None)
      else if InventoryPath host = ''H2'' then ([ex_dsB2, ex_dsC2, ex_dsD2], None)
      else if InventoryPath host = ''H3'' then ([ex_dsD3], None)
      else if InventoryPath host = ''H4'' then ([], None)
      else ([], Some (Opaque ''host not found'')))"

text \<open>
  A cluster of the hosts \<open>H1\<close> and \<open>H2\<close> in which every collaborator answers without
  error; the reloaded configuration names another virtual center.
\<close>

definition ex_env :: Env where
  "ex_env =
     \<lparr>GetVCenter = (\<lambda>manager. (Some ex_vcA, None)),
      GetHostsByCluster = (\<lambda>vc clusterID. ([ex_H1, ex_H2], None)),
      GetAllAccessibleDatastores = ex_accessible,
      GetConfig = (Some ex_config, None),
      GetVirtualCenterConfig = (\<lambda>cfg. (Some ex_cfgB, None)),
      UnregisterAllVirtualCenters = (\<lambda>vcManager. None),
      RegisterVirtualCenter = (\<lambda>vcManager cfg. (Some \<lparr>Config = cfg\<rparr>, None)),
      GetVirtualCenterManager = 1,
      GetVirtualCenter = (\<lambda>vcManager host.
         if host = ''vc-a.example'' then (Some ex_vcA, None)
         else (None, Some (Opaque ''virtual center was not found in the registry''))),
      GetManager = (\<lambda>vc. 2),
      validateWCPCreateVolumeRequest = (\<lambda>req. None),
      validateWCPControllerPublishVolumeRequest = (\<lambda>req. None),
      validateWCPControllerUnpublishVolumeRequest = (\<lambda>req. None),
      CreateBlockVolumeUtil = (\<lambda>manager spec datastores. (''volume-1'', None)),
      getVMUUIDFromPodListenerService = (\<lambda>volumeID nodeID. (''vm-uuid-1'', None)),
      getDatacenterFromConfig = (\<lambda>cfg. ([(''vc-a.example'', ''datacenter-2'')], None)),
      Connect = (\<lambda>vc. None),
      getVMByInstanceUUIDInDatacenter = (\<lambda>vc dc vmuuid. (Some ''pod-vm-1'', None)),
      AttachVolumeUtil = (\<lambda>manager vm volumeID. (''6000c2951354b06f'', None)),
      FormatDiskUUID = (\<lambda>uuid. uuid),
      AttributeStoragePolicyID = ''storagepolicyid'',
      AttributeAffineToHost = ''affinetohost'',
      AttributeDiskType = ''type'',
      AttributeFirstClassDiskUUID = ''diskUUID'',
      DiskTypeBlockVolume = ''vSphere CNS Block Volume'',
      BlockVolumeType = ''BLOCK''\<rparr>"

definition ex_env_hosts :: "HostSystem list \<Rightarrow> Env" where
  "ex_env_hosts hosts = ex_env\<lparr>GetHostsByCluster := \<lambda>vc clusterID. (hosts, None)\<rparr>"

text \<open>Collaborators that fail: the logout of the old session, the login of the new one.\<close>

definition ex_env_unregister_fails :: Env where
  "ex_env_unregister_fails =
     ex_env\<lparr>UnregisterAllVirtualCenters := \<lambda>vcManager. Some (Opaque ''logout failed'')\<rparr>"

definition ex_env_register_fails :: Env where
  "ex_env_register_fails =
     ex_env\<lparr>RegisterVirtualCenter := \<lambda>vcManager cfg. (None, Some (Opaque ''login failed''))\<rparr>"

text \<open>
  The configuration names a virtual center that the manager does not know: the lookup
  answers nil together with an error.
\<close>

definition ex_env_unknown_vc :: Env where
  "ex_env_unknown_vc =
     ex_env\<lparr>getDatacenterFromConfig := \<lambda>cfg. ([(''vc-b.example'', ''datacenter-2'')], None)\<rparr>"

definition ex_env_invalid :: Env where
  "ex_env_invalid =
     ex_env\<lparr>validateWCPControllerUnpublishVolumeRequest :=
               \<lambda>req. Some (StatusErr Internal ''Volume ID must be provided'' [])\<rparr>"

definition ex_publish_req :: ControllerPublishVolumeRequest where
  "ex_publish_req =
     \<lparr>ControllerPublishVolumeRequest.VolumeId = ''volume-1'',
      ControllerPublishVolumeRequest.NodeId = ''node-1''\<rparr>"

definition ex_unpublish_req :: ControllerUnpublishVolumeRequest where
  "ex_unpublish_req =
     \<lparr>ControllerUnpublishVolumeRequest.VolumeId = ''volume-1'',
      ControllerUnpublishVolumeRequest.NodeId = ''node-1''\<rparr>"

definition ex_create_req :: "CapacityRange option \<Rightarrow> strmap \<Rightarrow> CreateVolumeRequest" where
  "ex_create_req capacityRange parameters =
     \<lparr>CreateVolumeRequest.Name = ''pvc-1'', CapacityRange = capacityRange,
      Parameters = parameters\<rparr>"

definition ex_created :: Event where
  "ex_created = \<lparr>EventName = ''/etc/cloud/csi-vsphere.conf'', Op = fsnotify_Create\<rparr>"
definition ex_removed :: Event where
  "ex_removed = \<lparr>EventName = ''/etc/cloud/csi-vsphere.conf'', Op = fsnotify_Remove\<rparr>"
definition ex_written :: Event where
  "ex_written = \<lparr>EventName = ''/etc/cloud/csi-vsphere.conf'', Op = fsnotify_Write\<rparr>"
definition ex_chmod :: Event where
  "ex_chmod = \<lparr>EventName = ''/etc/cloud/csi-vsphere.conf'', Op = fsnotify_Chmod\<rparr>"

section \<open>Properties of the shared datastores\<close>

lemma urlFound_iff: "urlFound s acc \<longleftrightarrow> Url s \<in> Url ` set acc"
  by (induction acc) auto

lemma sharedAccessible_filter:
  "sharedAccessible ss acc = filter (\<lambda>s. Url s \<in> Url ` set acc) ss"
  by (induction ss) (simp_all add: urlFound_iff)

lemma hostLoop_fetch_error:
  "GetAllAccessibleDatastores env h = (acc, Some e) \<Longrightarrow>
   hostLoop env shared (h # hs) = (([], Some e), [CGetAllAccessibleDatastores h])"
  by simp

lemma hostLoop_empty:
  "GetAllAccessibleDatastores env h = (acc, None) \<Longrightarrow> nextShared shared acc = [] \<Longrightarrow>
   hostLoop env shared (h # hs) =
     (([], Some (Errorf noSharedMsg [AHost h])), [CGetAllAccessibleDatastores h])"
  by (simp add: nextShared_def)

lemma hostLoop_continue:
  "GetAllAccessibleDatastores env h = (acc, None) \<Longrightarrow> nextShared shared acc \<noteq> [] \<Longrightarrow>
   hostLoop env shared (h # hs) =
     (fst (hostLoop env (nextShared shared acc) hs),
      CGetAllAccessibleDatastores h # snd (hostLoop env (nextShared shared acc) hs))"
  by (simp add: nextShared_def split: prod.splits)

lemma hostLoop_cases:
  obtains (fetch_error) acc e where "GetAllAccessibleDatastores env h = (acc, Some e)"
  | (empty) acc where "GetAllAccessibleDatastores env h = (acc, None)" "nextShared shared acc = []"
  | (continue) acc where "GetAllAccessibleDatastores env h = (acc, None)" "nextShared shared acc \<noteq> []"
  by (cases "GetAllAccessibleDatastores env h"; cases "snd (GetAllAccessibleDatastores env h)") auto

lemma hostLoop_error_nil:
  "snd (fst (hostLoop env shared hs)) \<noteq> None \<Longrightarrow> fst (fst (hostLoop env shared hs)) = []"
proof (induction hs arbitrary: shared)
  case Nil
  then show ?case by simp
next
  case (Cons h hs)
  show ?case
  proof (cases rule: hostLoop_cases[where env=env and h=h and shared=shared])
    case (fetch_error acc e)
    then show ?thesis by (simp add: hostLoop_fetch_error[OF fetch_error] del: hostLoop.simps)
  next
    case (empty acc)
    then show ?thesis by (simp add: hostLoop_empty[OF empty] del: hostLoop.simps)
  next
    case (continue acc)
    with Cons show ?thesis by (simp add: hostLoop_continue[OF continue] del: hostLoop.simps)
  qed
qed

lemma hostLoop_ok_calls:
  "hostLoop env shared hs = ((r, None), calls) \<Longrightarrow> calls = map CGetAllAccessibleDatastores hs"
proof (induction hs arbitrary: shared calls)
  case Nil
  then show ?case by simp
next
  case (Cons h hs)
  show ?case
  proof (cases rule: hostLoop_cases[where env=env and h=h and shared=shared])
    case (fetch_error acc e)
    with Cons.prems show ?thesis by (simp add: hostLoop_fetch_error[OF fetch_error] del: hostLoop.simps)
  next
    case (empty acc)
    with Cons.prems show ?thesis by (simp add: hostLoop_empty[OF empty] del: hostLoop.simps)
  next
    case (continue acc)
    from Cons.prems
    have "hostLoop env (nextShared shared acc) hs = ((r, None), tl calls)"
      and "calls = CGetAllAccessibleDatastores h # tl calls"
      by (auto simp add: hostLoop_continue[OF continue] simp del: hostLoop.simps intro: prod_eqI)
    with Cons.IH show ?thesis by (metis list.simps(9))
  qed
qed

lemma hostLoop_append:
  "hostLoop env shared pre = ((shared', None), calls) \<Longrightarrow>
   hostLoop env shared (pre @ rest) =
     (fst (hostLoop env shared' rest), calls @ snd (hostLoop env shared' rest))"
proof (induction pre arbitrary: shared calls)
  case Nil
  then show ?case by simp
next
  case (Cons h hs)
  show ?case
  proof (cases rule: hostLoop_cases[where env=env and h=h and shared=shared])
    case (fetch_error acc e)
    with Cons.prems show ?thesis by (simp add: hostLoop_fetch_error[OF fetch_error] del: hostLoop.simps)
  next
    case (empty acc)
    with Cons.prems show ?thesis by (simp add: hostLoop_empty[OF empty] del: hostLoop.simps)
  next
    case (continue acc)
    from Cons.prems
    have "hostLoop env (nextShared shared acc) hs = ((shared', None), tl calls)"
      and c: "calls = CGetAllAccessibleDatastores h # tl calls"
      by (auto simp add: hostLoop_continue[OF continue] simp del: hostLoop.simps intro: prod_eqI)
    from Cons.IH[OF this(1)] c show ?thesis
      by (simp add: hostLoop_continue[OF continue] del: hostLoop.simps)
  qed
qed

lemma hostLoop_ok_iff:
  "shared \<noteq> [] \<Longrightarrow>
   fst (hostLoop env shared hs) = (r, None) \<longleftrightarrow>
     (\<forall>h\<in>set hs. fetchOk env h) \<and>
     r = filter (\<lambda>d. \<forall>h\<in>set hs. Url d \<in> accessibleUrls env h) shared \<and> r \<noteq> []"
proof (induction hs arbitrary: shared)
  case Nil
  then show ?case by auto
next
  case (Cons h hs)
  have ns: "\<And>acc. nextShared shared acc = filter (\<lambda>s. Url s \<in> Url ` set acc) shared"
    using Cons.prems by (simp add: nextShared_def sharedAccessible_filter)
  show ?case
  proof (cases rule: hostLoop_cases[where env=env and h=h and shared=shared])
    case (fetch_error acc e)
    then show ?thesis by (simp add: fetchOk_def)
  next
    case (empty acc)
    then have "filter (\<lambda>d. \<forall>h\<in>set (h # hs). Url d \<in> accessibleUrls env h) shared = []"
      by (auto simp: ns filter_empty_conv accessibleUrls_def)
    then show ?thesis
      by (simp only: hostLoop_empty[OF empty] fst_conv) auto
  next
    case (continue acc)
    have eq: "filter (\<lambda>d. \<forall>h\<in>set hs. Url d \<in> accessibleUrls env h) (nextShared shared acc)
            = filter (\<lambda>d. \<forall>h\<in>set (h # hs). Url d \<in> accessibleUrls env h) shared"
      using continue(1) by (auto simp: ns accessibleUrls_def intro: filter_cong)
    have ok: "fetchOk env h" using continue(1) by (simp add: fetchOk_def)
    from Cons.IH[OF continue(2)] eq ok show ?thesis
      by (simp only: hostLoop_continue[OF continue] fst_conv) simp
  qed
qed


lemma foldl_filter:
  "foldl (\<lambda>shared h. filter (P h) shared) xs hs = filter (\<lambda>d. \<forall>h\<in>set hs. P h d) xs"
proof (induction hs arbitrary: xs)
  case Nil
  then show ?case by simp
next
  case (Cons h hs)
  have "filter (\<lambda>d. \<forall>h\<in>set hs. P h d) (filter (P h) xs)
      = filter (\<lambda>d. \<forall>h\<in>set (h # hs). P h d) xs"
    by (auto intro: filter_cong)
  with Cons show ?case by simp
qed

lemma urls_filter:
  "Url ` set (filter (\<lambda>d. Q (Url d)) xs) = {u \<in> Url ` set xs. Q u}"
  by auto

lemma getShared_ok_iff:
  assumes "GetVCenter env m = (vc, None)"
    and "GetHostsByCluster env vc (ClusterID (CnsConfig m)) = (hosts, None)"
  shows "fst (getSharedDatastoresInPodVMK8SCluster env m) = (r, None) \<longleftrightarrow>
     hosts \<noteq> [] \<and> (\<forall>h\<in>set hosts. fetchOk env h) \<and>
     r = filter (\<lambda>d. \<forall>h\<in>set (tl hosts). Url d \<in> accessibleUrls env h)
           (fst (GetAllAccessibleDatastores env (hd hosts))) \<and>
     r \<noteq> []"
proof (cases hosts)
  case Nil
  with assms show ?thesis
    by (simp add: getSharedDatastoresInPodVMK8SCluster_def)
next
  case (Cons h hs)
  have g: "fst (getSharedDatastoresInPodVMK8SCluster env m) = fst (hostLoop env [] (h # hs))"
    using assms Cons
    by (simp add: getSharedDatastoresInPodVMK8SCluster_def split: prod.splits del: hostLoop.simps)
  show ?thesis
  proof (cases rule: hostLoop_cases[where env=env and h=h and shared="[]"])
    case (fetch_error acc e)
    then show ?thesis
      unfolding g by (simp add: hostLoop_fetch_error[OF fetch_error] Cons fetchOk_def del: hostLoop.simps)
  next
    case (empty acc)
    then have "acc = []" by (simp add: nextShared_def)
    with empty(1) show ?thesis
      unfolding g by (simp only: hostLoop_empty[OF empty] fst_conv) (auto simp: Cons)
  next
    case (continue acc)
    then have ne: "acc \<noteq> []" and ns: "nextShared [] acc = acc" by (simp_all add: nextShared_def)
    have ok: "fetchOk env h" using continue(1) by (simp add: fetchOk_def)
    show ?thesis
      unfolding g using hostLoop_ok_iff[OF ne, of env hs r] ok continue(1)
      by (simp add: hostLoop_continue[OF continue] ns Cons del: hostLoop.simps)
  qed
qed


text \<open>
  C2: in a cluster of at least two hosts, every host after the first is intersected
  with the running shared set by equality of the URLs alone, and what is returned are
  the elements of the first host's set that survive, in the order of that set. For
  \<open>H1\<close> with \<open>A, B, C\<close> and \<open>H2\<close> with \<open>B, C, D\<close> the result is \<open>B, C\<close>.
\<close>

theorem shared_datastores_stable_intersection:
  assumes "GetVCenter env m = (vc, None)"
    and "GetHostsByCluster env vc (ClusterID (CnsConfig m)) = (h1 # h2 # hs, None)"
    and "fst (getSharedDatastoresInPodVMK8SCluster env m) = (r, None)"
  shows "r = foldl (\<lambda>shared h. filter (\<lambda>s. \<exists>a\<in>set (fst (GetAllAccessibleDatastores env h)). Url s = Url a) shared)
               (fst (GetAllAccessibleDatastores env h1)) (h2 # hs)
       \<and> r = filter (\<lambda>s. \<forall>h\<in>set (h2 # hs). Url s \<in> accessibleUrls env h)
               (fst (GetAllAccessibleDatastores env h1))"
proof -
  have r: "r = filter (\<lambda>s. \<forall>h\<in>set (h2 # hs). Url s \<in> accessibleUrls env h)
               (fst (GetAllAccessibleDatastores env h1))"
    using getShared_ok_iff[OF assms(1,2), of r] assms(3) by simp
  have "filter (\<lambda>s. \<forall>h\<in>set (h2 # hs). Url s \<in> accessibleUrls env h)
               (fst (GetAllAccessibleDatastores env h1))
      = foldl (\<lambda>shared h. filter (\<lambda>s. \<exists>a\<in>set (fst (GetAllAccessibleDatastores env h)). Url s = Url a) shared)
               (fst (GetAllAccessibleDatastores env h1)) (h2 # hs)"
    unfolding foldl_filter accessibleUrls_def by (rule filter_cong) auto
  with r show ?thesis by (simp only: simp_thms)
qed


theorem shared_datastores_stable_intersection_witness:
  "fst (getSharedDatastoresInPodVMK8SCluster ex_env ex_manager) = ([ex_dsB, ex_dsC], None)
   \<and> [ex_dsB, ex_dsC] =
       foldl (\<lambda>shared h. filter (\<lambda>s. \<exists>a\<in>set (fst (GetAllAccessibleDatastores ex_env h)). Url s = Url a) shared)
         (fst (GetAllAccessibleDatastores ex_env ex_H1)) [ex_H2]"
proof -
  have v: "GetVCenter ex_env ex_manager = (Some ex_vcA, None)"
    by (simp add: ex_env_def)
  have h: "GetHostsByCluster ex_env (Some ex_vcA) (ClusterID (CnsConfig ex_manager))
           = (ex_H1 # ex_H2 # [], None)"
    by (simp add: ex_env_def)
  have r: "fst (getSharedDatastoresInPodVMK8SCluster ex_env ex_manager) = ([ex_dsB, ex_dsC], None)"
    by (simp add: getSharedDatastoresInPodVMK8SCluster_def ex_env_def ex_accessible_def
        ex_H1_def ex_H2_def ex_dsA_def ex_dsB_def ex_dsC_def ex_dsB2_def ex_dsC2_def
        ex_dsD2_def)
  from shared_datastores_stable_intersection [OF v h r] r show ?thesis by blast
qed


text \<open>
  C3: the resolution fails fast. With no host it fails before any host is asked for
  its datastores. When the running shared set is empty after a host, it fails with
  the error that names this host, and the hosts after it are not asked. Whenever it
  fails, the list it returns is empty.
\<close>

theorem shared_datastores_fail_fast:
  assumes "GetVCenter env m = (vc, None)"
    and "GetHostsByCluster env vc (ClusterID (CnsConfig m)) = (hosts, None)"
  shows "(hosts = [] \<longrightarrow>
            getSharedDatastoresInPodVMK8SCluster env m =
              (([], Some (Errorf emptyHostsMsg [])),
               [CGetVCenter m, CGetHostsByCluster (ClusterID (CnsConfig m))]))
       \<and> (hosts = pre @ h # post \<and> hostLoop env [] pre = ((shared, None), calls) \<and>
          GetAllAccessibleDatastores env h = (acc, None) \<and>
          (if length shared = 0 then acc else sharedAccessible shared acc) = [] \<longrightarrow>
            getSharedDatastoresInPodVMK8SCluster env m =
              (([], Some (Errorf noSharedMsg [AHost h])),
               [CGetVCenter m, CGetHostsByCluster (ClusterID (CnsConfig m))]
               @ map CGetAllAccessibleDatastores (pre @ [h])))
       \<and> (snd (fst (getSharedDatastoresInPodVMK8SCluster env m)) \<noteq> None \<longrightarrow>
            fst (fst (getSharedDatastoresInPodVMK8SCluster env m)) = [])"
proof (intro conjI impI)
  assume "hosts = []"
  with assms show "getSharedDatastoresInPodVMK8SCluster env m =
      (([], Some (Errorf emptyHostsMsg [])),
       [CGetVCenter m, CGetHostsByCluster (ClusterID (CnsConfig m))])"
    by (simp add: getSharedDatastoresInPodVMK8SCluster_def)
next
  assume a: "hosts = pre @ h # post \<and> hostLoop env [] pre = ((shared, None), calls) \<and>
          GetAllAccessibleDatastores env h = (acc, None) \<and>
          (if length shared = 0 then acc else sharedAccessible shared acc) = []"
  then have pre: "hostLoop env [] pre = ((shared, None), calls)"
    and f: "GetAllAccessibleDatastores env h = (acc, None)"
    and e: "nextShared shared acc = []"
    and hs: "hosts = pre @ h # post"
    by (simp_all add: nextShared_def)
  have c: "calls = map CGetAllAccessibleDatastores pre"
    using pre by (rule hostLoop_ok_calls)
  have "hostLoop env [] hosts =
      (([], Some (Errorf noSharedMsg [AHost h])), calls @ [CGetAllAccessibleDatastores h])"
    unfolding hs hostLoop_append[OF pre] hostLoop_empty[OF f e] by simp
  with assms hs c show "getSharedDatastoresInPodVMK8SCluster env m =
      (([], Some (Errorf noSharedMsg [AHost h])),
       [CGetVCenter m, CGetHostsByCluster (ClusterID (CnsConfig m))]
       @ map CGetAllAccessibleDatastores (pre @ [h]))"
    by (simp add: getSharedDatastoresInPodVMK8SCluster_def del: hostLoop.simps)
next
  assume "snd (fst (getSharedDatastoresInPodVMK8SCluster env m)) \<noteq> None"
  then show "fst (fst (getSharedDatastoresInPodVMK8SCluster env m)) = []"
    using assms hostLoop_error_nil[of env "[]" hosts]
    by (auto simp add: getSharedDatastoresInPodVMK8SCluster_def
        split: if_splits prod.splits simp del: hostLoop.simps)
qed


lemmas ex_resolver_defs =
  getSharedDatastoresInPodVMK8SCluster_def ex_env_hosts_def ex_env_def ex_accessible_def
  ex_manager_def ex_config_def ex_H1_def ex_H2_def ex_H3_def ex_H4_def
  ex_dsA_def ex_dsB_def ex_dsC_def ex_dsB2_def ex_dsC2_def ex_dsD2_def ex_dsD3_def

theorem shared_datastores_fail_fast_witness:
  "getSharedDatastoresInPodVMK8SCluster (ex_env_hosts []) ex_manager =
     (([], Some (Errorf emptyHostsMsg [])),
      [CGetVCenter ex_manager, CGetHostsByCluster ''domain-c8''])
   \<and> getSharedDatastoresInPodVMK8SCluster (ex_env_hosts [ex_H1, ex_H3, ex_H2]) ex_manager =
     (([], Some (Errorf noSharedMsg [AHost ex_H3])),
      [CGetVCenter ex_manager, CGetHostsByCluster ''domain-c8'',
       CGetAllAccessibleDatastores ex_H1, CGetAllAccessibleDatastores ex_H3])"
proof -
  have v: "GetVCenter (ex_env_hosts hs) ex_manager = (Some ex_vcA, None)" for hs
    by (simp add: ex_env_hosts_def ex_env_def)
  have h: "GetHostsByCluster (ex_env_hosts hs) (Some ex_vcA) (ClusterID (CnsConfig ex_manager))
           = (hs, None)" for hs
    by (simp add: ex_env_hosts_def ex_env_def)
  have c: "ClusterID (CnsConfig ex_manager) = ''domain-c8''"
    by (simp add: ex_manager_def ex_config_def)
  have p: "[ex_H1, ex_H3, ex_H2] = [ex_H1] @ ex_H3 # [ex_H2] \<and>
      hostLoop (ex_env_hosts [ex_H1, ex_H3, ex_H2]) [] [ex_H1] =
        (([ex_dsA, ex_dsB, ex_dsC], None), [CGetAllAccessibleDatastores ex_H1]) \<and>
      GetAllAccessibleDatastores (ex_env_hosts [ex_H1, ex_H3, ex_H2]) ex_H3 = ([ex_dsD3], None) \<and>
      (if length [ex_dsA, ex_dsB, ex_dsC] = 0 then [ex_dsD3]
       else sharedAccessible [ex_dsA, ex_dsB, ex_dsC] [ex_dsD3]) = []"
    by (simp add: ex_resolver_defs)
  from shared_datastores_fail_fast [OF v h, of "[]"]
  have one: "getSharedDatastoresInPodVMK8SCluster (ex_env_hosts []) ex_manager =
     (([], Some (Errorf emptyHostsMsg [])),
      [CGetVCenter ex_manager, CGetHostsByCluster ''domain-c8''])"
    by (simp only: c simp_thms)
  from shared_datastores_fail_fast [OF v h, where pre = "[ex_H1]" and h = ex_H3
      and post = "[ex_H2]" and shared = "[ex_dsA, ex_dsB, ex_dsC]"
      and calls = "[CGetAllAccessibleDatastores ex_H1]" and acc = "[ex_dsD3]"] p
  have two: "getSharedDatastoresInPodVMK8SCluster (ex_env_hosts [ex_H1, ex_H3, ex_H2]) ex_manager =
     (([], Some (Errorf noSharedMsg [AHost ex_H3])),
      [CGetVCenter ex_manager, CGetHostsByCluster ''domain-c8''] @
      map CGetAllAccessibleDatastores ([ex_H1] @ [ex_H3]))"
    unfolding c by blast
  from one two show ?thesis by simp
qed

text \<open>
  C4, as the code has it: a cluster of one host whose datastores are fetched and are
  not empty resolves to exactly the list of that host, with one fetch and no
  intersection.
\<close>

theorem single_host_returns_its_accessible_set:
  assumes "GetVCenter env m = (vc, None)"
    and "GetHostsByCluster env vc (ClusterID (CnsConfig m)) = ([h], None)"
    and "GetAllAccessibleDatastores env h = (acc, None)"
    and "acc \<noteq> []"
  shows "getSharedDatastoresInPodVMK8SCluster env m =
           ((acc, None),
            [CGetVCenter m, CGetHostsByCluster (ClusterID (CnsConfig m)),
             CGetAllAccessibleDatastores h])"
  using assms by (simp add: getSharedDatastoresInPodVMK8SCluster_def)

theorem single_host_returns_its_accessible_set_witness:
  "getSharedDatastoresInPodVMK8SCluster (ex_env_hosts [ex_H1]) ex_manager =
     (([ex_dsA, ex_dsB, ex_dsC], None),
      [CGetVCenter ex_manager, CGetHostsByCluster ''domain-c8'',
       CGetAllAccessibleDatastores ex_H1])"
proof -
  have v: "GetVCenter (ex_env_hosts [ex_H1]) ex_manager = (Some ex_vcA, None)"
    by (simp add: ex_env_hosts_def ex_env_def)
  have h: "GetHostsByCluster (ex_env_hosts [ex_H1]) (Some ex_vcA)
             (ClusterID (CnsConfig ex_manager)) = ([ex_H1], None)"
    by (simp add: ex_env_hosts_def ex_env_def)
  have f: "GetAllAccessibleDatastores (ex_env_hosts [ex_H1]) ex_H1
           = ([ex_dsA, ex_dsB, ex_dsC], None)"
    by (simp add: ex_env_hosts_def ex_env_def ex_accessible_def ex_H1_def)
  have n: "[ex_dsA, ex_dsB, ex_dsC] \<noteq> []" by simp
  have c: "ClusterID (CnsConfig ex_manager) = ''domain-c8''"
    by (simp add: ex_manager_def ex_config_def)
  from single_host_returns_its_accessible_set [OF v h f n] show ?thesis
    by (simp only: c)
qed

text \<open>
  The cluster of the single host \<open>H4\<close>, which reports no datastore: the resolution
  does not return the set of \<open>H4\<close>, it fails with the error that names \<open>H4\<close>.
\<close>

theorem single_host_empty_set_counterexample:
  "GetHostsByCluster (ex_env_hosts [ex_H4]) (Some ex_vcA) ''domain-c8'' = ([ex_H4], None)
   \<and> GetAllAccessibleDatastores (ex_env_hosts [ex_H4]) ex_H4 = ([], None)
   \<and> fst (getSharedDatastoresInPodVMK8SCluster (ex_env_hosts [ex_H4]) ex_manager) =
       ([], Some (Errorf noSharedMsg [AHost ex_H4]))
   \<and> fst (getSharedDatastoresInPodVMK8SCluster (ex_env_hosts [ex_H4]) ex_manager) \<noteq>
       (fst (GetAllAccessibleDatastores (ex_env_hosts [ex_H4]) ex_H4), None)"
  by (simp add: ex_resolver_defs)

text \<open>
  C7: when the resolution succeeds, it succeeds for every permutation of the hosts,
  with the same set of URLs; the result is then the list of the host visited first,
  filtered to these URLs.
\<close>

theorem shared_datastores_host_order_independent:
  assumes "GetVCenter env m = (vc, None)"
    and "GetHostsByCluster env vc (ClusterID (CnsConfig m)) = (hosts, None)"
    and "mset hosts' = mset hosts"
    and "fst (getSharedDatastoresInPodVMK8SCluster env m) = (r, None)"
  shows "\<exists>r'. fst (getSharedDatastoresInPodVMK8SCluster
                     (env\<lparr>GetHostsByCluster := \<lambda>vc cid. (hosts', None)\<rparr>) m) = (r', None)
            \<and> Url ` set r' = Url ` set r
            \<and> r' = filter (\<lambda>d. Url d \<in> Url ` set r)
                     (fst (GetAllAccessibleDatastores env (hd hosts')))"
proof -
  let ?env' = "env\<lparr>GetHostsByCluster := \<lambda>vc cid. (hosts', None)\<rparr>"
  let ?I = "{u. \<forall>h\<in>set hosts. u \<in> accessibleUrls env h}"
  have same: "accessibleUrls ?env' = accessibleUrls env" "fetchOk ?env' = fetchOk env"
    by (simp_all add: accessibleUrls_def fetchOk_def fun_eq_iff)
  have sets: "set hosts' = set hosts" using assms(3) by (rule mset_eq_setD)
  from iffD1[OF getShared_ok_iff[OF assms(1,2)] assms(4)]
  have ne: "hosts \<noteq> []" and ok: "\<forall>h\<in>set hosts. fetchOk env h" and rne: "r \<noteq> []"
    and r: "r = filter (\<lambda>d. \<forall>h\<in>set (tl hosts). Url d \<in> accessibleUrls env h)
           (fst (GetAllAccessibleDatastores env (hd hosts)))"
    by blast+
  have inter: "\<And>xs. xs \<noteq> [] \<Longrightarrow>
      Url ` set (filter (\<lambda>d. \<forall>h\<in>set (tl xs). Url d \<in> accessibleUrls env h)
           (fst (GetAllAccessibleDatastores env (hd xs))))
      = {u. \<forall>h\<in>set xs. u \<in> accessibleUrls env h}"
  proof -
    fix xs :: "HostSystem list" assume "xs \<noteq> []"
    then obtain y ys where xs: "xs = y # ys" by (cases xs) auto
    show "Url ` set (filter (\<lambda>d. \<forall>h\<in>set (tl xs). Url d \<in> accessibleUrls env h)
           (fst (GetAllAccessibleDatastores env (hd xs))))
      = {u. \<forall>h\<in>set xs. u \<in> accessibleUrls env h}"
      unfolding xs by (auto simp: accessibleUrls_def)
  qed
  have ur: "Url ` set r = ?I" using inter[OF ne] r by simp
  have ne': "hosts' \<noteq> []" using ne sets by auto
  define r' where "r' = filter (\<lambda>d. \<forall>h\<in>set (tl hosts'). Url d \<in> accessibleUrls env h)
           (fst (GetAllAccessibleDatastores env (hd hosts')))"
  have ur': "Url ` set r' = ?I" using inter[OF ne'] sets by (simp add: r'_def)
  have rne': "r' \<noteq> []" using ur ur' rne by (metis image_is_empty set_empty)
  have "fst (getSharedDatastoresInPodVMK8SCluster ?env' m) = (r', None)"
    using getShared_ok_iff[of ?env' m vc hosts' r'] assms(1) ne' ok sets rne'
    by (simp add: same r'_def)
  moreover have "r' = filter (\<lambda>d. Url d \<in> Url ` set r)
                     (fst (GetAllAccessibleDatastores env (hd hosts')))"
  proof -
    obtain y ys where xs: "hosts' = y # ys" using ne' by (cases hosts') auto
    show ?thesis
      unfolding ur r'_def xs using sets
      by (auto simp: xs accessibleUrls_def intro!: filter_cong)
  qed
  ultimately show ?thesis using ur ur' by blast
qed
theorem shared_datastores_host_order_independent_witness:
  "fst (getSharedDatastoresInPodVMK8SCluster
          (ex_env\<lparr>GetHostsByCluster := \<lambda>vc cid. ([ex_H2, ex_H1], None)\<rparr>) ex_manager)
     = ([ex_dsB2, ex_dsC2], None)
   \<and> Url ` set [ex_dsB2, ex_dsC2] = Url ` set [ex_dsB, ex_dsC]"
proof -
  have v: "GetVCenter ex_env ex_manager = (Some ex_vcA, None)"
    by (simp add: ex_env_def)
  have h: "GetHostsByCluster ex_env (Some ex_vcA) (ClusterID (CnsConfig ex_manager))
           = ([ex_H1, ex_H2], None)"
    by (simp add: ex_env_def)
  have p: "mset [ex_H2, ex_H1] = mset [ex_H1, ex_H2]" by simp
  have r: "fst (getSharedDatastoresInPodVMK8SCluster ex_env ex_manager) = ([ex_dsB, ex_dsC], None)"
    by (simp add: ex_resolver_defs)
  have r': "fst (getSharedDatastoresInPodVMK8SCluster
          (ex_env\<lparr>GetHostsByCluster := \<lambda>vc cid. ([ex_H2, ex_H1], None)\<rparr>) ex_manager)
     = ([ex_dsB2, ex_dsC2], None)"
    by (simp add: ex_resolver_defs)
  from shared_datastores_host_order_independent [OF v h p r] r' show ?thesis
    by (metis prod.inject)
qed


section \<open>Properties of the configuration watcher\<close>

lemma watchLoop_state:
  "fst (watchLoop reload msgs s) =
     foldl (\<lambda>s e. if Op e AND fsnotify_Remove = fsnotify_Remove then reload s else s) s
       (delivered msgs)"
  by (induction reload msgs s rule: watchLoop.induct) (simp_all add: case_prod_beta)

lemma watchLoop_reload_count:
  "length (filter (\<lambda>t. t = Reload) (snd (watchLoop reload msgs s))) =
     length (filter (\<lambda>e. Op e AND fsnotify_Remove = fsnotify_Remove) (delivered msgs))"
  by (induction reload msgs s rule: watchLoop.induct) (simp_all add: case_prod_beta)

lemma watchLoop_events_trace:
  "snd (watchLoop reload (map EventMsg events) s) =
     concat (map (\<lambda>e. if Op e AND fsnotify_Remove = fsnotify_Remove
                       then [Waiting, GotEvent e, Reload, Processed]
                       else [Waiting, GotEvent e, Processed]) events) @ [Waiting]"
  by (induction events arbitrary: s) (simp_all add: case_prod_beta)

text \<open>
  C8: the events that the loop receives change the controller's state only through
  one reload for each event whose operation has the removal bit, so the reloads made
  are as many as these events. For every event the loop logs the event, reloads when
  the bit is set and not otherwise, and logs that the event is processed, before it
  waits for the next event: the reload has returned by then.
\<close>

theorem watcher_reloads_once_per_removal:
  "fst (watchLoop reload msgs s) =
     foldl (\<lambda>s e. if Op e AND fsnotify_Remove = fsnotify_Remove then reload s else s) s
       (delivered msgs)
   \<and> length (filter (\<lambda>t. t = Reload) (snd (watchLoop reload msgs s))) =
     length (filter (\<lambda>e. Op e AND fsnotify_Remove = fsnotify_Remove) (delivered msgs))
   \<and> snd (watchLoop reload (map EventMsg events) s) =
     concat (map (\<lambda>e. if Op e AND fsnotify_Remove = fsnotify_Remove
                       then [Waiting, GotEvent e, Reload, Processed]
                       else [Waiting, GotEvent e, Processed]) events) @ [Waiting]"
  by (intro conjI watchLoop_state watchLoop_reload_count watchLoop_events_trace)


lemmas ex_event_defs = ex_created_def ex_removed_def ex_written_def ex_chmod_def
  fsnotify_Create_def fsnotify_Remove_def fsnotify_Write_def fsnotify_Chmod_def

theorem watcher_reloads_once_per_removal_witness:
  "fst (watchLoop Suc [EventMsg ex_created, EventMsg ex_removed, ErrorMsg (Opaque ''overflow''),
       EventMsg ex_written, EventMsg (ex_removed\<lparr>Op := fsnotify_Remove OR fsnotify_Chmod\<rparr>),
       EventMsg ex_chmod, EventsClosed, EventMsg ex_removed] 0) = 2
   \<and> snd (watchLoop Suc (map EventMsg [ex_created, ex_removed, ex_written]) 0) =
       [Waiting, GotEvent ex_created, Processed,
        Waiting, GotEvent ex_removed, Reload, Processed,
        Waiting, GotEvent ex_written, Processed, Waiting]"
proof -
  let ?msgs = "[EventMsg ex_created, EventMsg ex_removed, ErrorMsg (Opaque ''overflow''),
       EventMsg ex_written, EventMsg (ex_removed\<lparr>Op := fsnotify_Remove OR fsnotify_Chmod\<rparr>),
       EventMsg ex_chmod, EventsClosed, EventMsg ex_removed]"
  note t = watcher_reloads_once_per_removal [of Suc ?msgs 0 "[ex_created, ex_removed, ex_written]"]
  have "fst (watchLoop Suc ?msgs 0) =
      foldl (\<lambda>s e. if Op e AND fsnotify_Remove = fsnotify_Remove then Suc s else s) 0
       (delivered ?msgs)"
    using t by (rule conjunct1)
  also have "\<dots> = 2" by (simp add: ex_event_defs)
  finally have one: "fst (watchLoop Suc ?msgs 0) = 2" .
  have "snd (watchLoop Suc (map EventMsg [ex_created, ex_removed, ex_written]) 0) =
     concat (map (\<lambda>e. if Op e AND fsnotify_Remove = fsnotify_Remove
                       then [Waiting, GotEvent e, Reload, Processed]
                       else [Waiting, GotEvent e, Processed])
        [ex_created, ex_removed, ex_written]) @ [Waiting]"
    using t by (rule conjunct2 [THEN conjunct2])
  also have "\<dots> = [Waiting, GotEvent ex_created, Processed,
        Waiting, GotEvent ex_removed, Reload, Processed,
        Waiting, GotEvent ex_written, Processed, Waiting]"
    by (simp add: ex_event_defs)
  finally show ?thesis using one by (rule conjI [rotated])
qed

section \<open>Properties of ControllerUnpublishVolume and ControllerPublishVolume\<close>

text \<open>
  C9: a ControllerUnpublishVolume request that passes the validation is answered with
  the empty response and no error, and no collaborator is called, whatever the state
  of the manager and of the other collaborators; a request that fails the validation
  is answered with the validator's error itself.
\<close>

theorem unpublish_is_validation_only:
  "(validateWCPControllerUnpublishVolumeRequest env req = None \<longrightarrow>
      ControllerUnpublishVolume env m req = ((Some \<lparr>Unused = ()\<rparr>, None), []))
   \<and> (validateWCPControllerUnpublishVolumeRequest env req = Some err \<longrightarrow>
      ControllerUnpublishVolume env m req = ((None, Some err), []))"
  by (simp add: ControllerUnpublishVolume_def)

theorem unpublish_is_validation_only_witness:
  "ControllerUnpublishVolume ex_env ex_manager ex_unpublish_req = ((Some \<lparr>Unused = ()\<rparr>, None), [])
   \<and> ControllerUnpublishVolume ex_env_invalid ex_manager ex_unpublish_req =
      ((None, Some (StatusErr Internal ''Volume ID must be provided'' [])), [])"
proof -
  have a: "validateWCPControllerUnpublishVolumeRequest ex_env ex_unpublish_req = None"
    by (simp add: ex_env_def)
  have b: "validateWCPControllerUnpublishVolumeRequest ex_env_invalid ex_unpublish_req =
      Some (StatusErr Internal ''Volume ID must be provided'' [])"
    by (simp add: ex_env_invalid_def)
  from unpublish_is_validation_only [where env = ex_env and req = ex_unpublish_req
      and m = ex_manager]
  have one: "ControllerUnpublishVolume ex_env ex_manager ex_unpublish_req =
      ((Some \<lparr>Unused = ()\<rparr>, None), [])"
    using a by (simp only: simp_thms)
  from unpublish_is_validation_only [where env = ex_env_invalid and req = ex_unpublish_req
      and err = "StatusErr Internal ''Volume ID must be provided'' []" and m = ex_manager]
  have two: "ControllerUnpublishVolume ex_env_invalid ex_manager ex_unpublish_req =
      ((None, Some (StatusErr Internal ''Volume ID must be provided'' [])), [])"
    using b by (simp only: simp_thms)
  from one two show ?thesis by (rule conjI)
qed

text \<open>
  C10: when the lookup of the virtual center answers nil together with an error, the
  error branch of lines 308-313 reads \<^verbatim>\<open>vc.Config.Host\<close> through the nil pointer to
  build its message. ControllerPublishVolume then panics and returns no error to the
  caller: here the configuration names a virtual center that is not registered.
\<close>

theorem publish_panics_when_lookup_fails:
  "GetVirtualCenter ex_env_unknown_vc (VcenterManager ex_manager) ''vc-b.example'' =
     (None, Some (Opaque ''virtual center was not found in the registry''))
   \<and> ControllerPublishVolume ex_env_unknown_vc ex_manager ex_publish_req =
     (Panic nilDereference,
      [CGetVMUUIDFromPodListenerService ''volume-1'' ''node-1'',
       CGetVirtualCenter 1 ''vc-b.example''])"
  by (simp add: ControllerPublishVolume_def ex_env_unknown_vc_def ex_env_def ex_manager_def
      ex_publish_req_def)


section \<open>Properties of the reload\<close>

text \<open>
  C1: a reload whose new endpoint differs from the active one in host, user name or
  password first unregisters all virtual centers and then registers the new one. When
  either step fails the reload stops there and the manager is the one it was, so a
  CreateVolume or ControllerPublishVolume made afterwards works on the manager of
  before the reload. When both succeed the manager holds the new configuration, the
  volume manager bound to the new session and the virtual center manager.
\<close>

theorem reload_replaces_session_or_aborts:
  assumes "GetConfig env = (cfg, None)"
    and "GetVirtualCenterConfig env cfg = (Some new, None)"
    and "Host (VcenterConfig m) \<noteq> Host new \<or> Username (VcenterConfig m) \<noteq> Username new
         \<or> Password (VcenterConfig m) \<noteq> Password new"
  shows "(UnregisterAllVirtualCenters env (VcenterManager m) = Some e1 \<longrightarrow>
            ReloadConfiguration env m =
              (m, [CGetConfig, CGetVirtualCenterConfig cfg,
                   CUnregisterAllVirtualCenters (VcenterManager m)]))
       \<and> (UnregisterAllVirtualCenters env (VcenterManager m) = None \<and>
          RegisterVirtualCenter env (VcenterManager m) new = (vcenter, Some e2) \<longrightarrow>
            ReloadConfiguration env m =
              (m, [CGetConfig, CGetVirtualCenterConfig cfg,
                   CUnregisterAllVirtualCenters (VcenterManager m),
                   CRegisterVirtualCenter (VcenterManager m) new]))
       \<and> (UnregisterAllVirtualCenters env (VcenterManager m) = None \<and>
          RegisterVirtualCenter env (VcenterManager m) new = (vcenter, None) \<longrightarrow>
            ReloadConfiguration env m =
              (\<lparr>VcenterConfig = new,
                CnsConfig = (case cfg of None \<Rightarrow> CnsConfig m | Some c \<Rightarrow> c),
                VolumeManager = GetManager env vcenter,
                VcenterManager = GetVirtualCenterManager env\<rparr>,
               [CGetConfig, CGetVirtualCenterConfig cfg,
                CUnregisterAllVirtualCenters (VcenterManager m),
                CRegisterVirtualCenter (VcenterManager m) new,
                CGetVirtualCenterManager,
                CResetManager (VolumeManager m) vcenter,
                CGetManager vcenter]))
       \<and> (UnregisterAllVirtualCenters env (VcenterManager m) \<noteq> None \<or>
          snd (RegisterVirtualCenter env (VcenterManager m) new) \<noteq> None \<longrightarrow>
            CreateVolume env' (fst (ReloadConfiguration env m)) creq = CreateVolume env' m creq \<and>
            ControllerPublishVolume env' (fst (ReloadConfiguration env m)) preq =
              ControllerPublishVolume env' m preq)"
proof -
  have differ: "reloadVirtualCenter env m new =
      (case UnregisterAllVirtualCenters env (VcenterManager m) of
           Some err \<Rightarrow>
             (Returned m, [CUnregisterAllVirtualCenters (VcenterManager m)])
         | None \<Rightarrow>
             (case RegisterVirtualCenter env (VcenterManager m) new of
                (vcenter, Some err) \<Rightarrow>
                  (Returned m,
                   [CUnregisterAllVirtualCenters (VcenterManager m),
                    CRegisterVirtualCenter (VcenterManager m) new])
              | (vcenter, None) \<Rightarrow>
                  (case rebindVolumeManager env
                          (m\<lparr>VcenterManager := GetVirtualCenterManager env\<rparr>)
                          vcenter new of
                     (manager', calls) \<Rightarrow>
                       (Continue manager',
                        [CUnregisterAllVirtualCenters (VcenterManager m),
                         CRegisterVirtualCenter (VcenterManager m) new,
                         CGetVirtualCenterManager] @ calls))))"
    using assms(3) unfolding reloadVirtualCenter_def by (simp only: if_True)
  have r: "ReloadConfiguration env m =
      (case reloadVirtualCenter env m new of
                  (Returned manager', calls) \<Rightarrow>
                    (manager', [CGetConfig, CGetVirtualCenterConfig cfg] @ calls)
                | (Continue manager', calls) \<Rightarrow>
                    ((case cfg of
                        None \<Rightarrow> manager'
                      | Some c \<Rightarrow> manager'\<lparr>CnsConfig := c\<rparr>),
                     [CGetConfig, CGetVirtualCenterConfig cfg] @ calls))"
    using assms(1,2) by (simp add: ReloadConfiguration_def)
  have one: "ReloadConfiguration env m =
              (m, [CGetConfig, CGetVirtualCenterConfig cfg,
                   CUnregisterAllVirtualCenters (VcenterManager m)])"
    if "UnregisterAllVirtualCenters env (VcenterManager m) = Some e1"
    unfolding r differ using that by simp
  have two: "ReloadConfiguration env m =
              (m, [CGetConfig, CGetVirtualCenterConfig cfg,
                   CUnregisterAllVirtualCenters (VcenterManager m),
                   CRegisterVirtualCenter (VcenterManager m) new])"
    if "UnregisterAllVirtualCenters env (VcenterManager m) = None"
      and "RegisterVirtualCenter env (VcenterManager m) new = (vc', Some e2)" for vc' e2
    unfolding r differ using that by simp
  have three: "ReloadConfiguration env m =
              (\<lparr>VcenterConfig = new,
                CnsConfig = (case cfg of None \<Rightarrow> CnsConfig m | Some c \<Rightarrow> c),
                VolumeManager = GetManager env vcenter,
                VcenterManager = GetVirtualCenterManager env\<rparr>,
               [CGetConfig, CGetVirtualCenterConfig cfg,
                CUnregisterAllVirtualCenters (VcenterManager m),
                CRegisterVirtualCenter (VcenterManager m) new,
                CGetVirtualCenterManager,
                CResetManager (VolumeManager m) vcenter,
                CGetManager vcenter])"
    if "UnregisterAllVirtualCenters env (VcenterManager m) = None"
      and "RegisterVirtualCenter env (VcenterManager m) new = (vcenter, None)"
    unfolding r differ using that
    by (cases cfg) (simp_all add: rebindVolumeManager_def)
  have four: "fst (ReloadConfiguration env m) = m"
    if "UnregisterAllVirtualCenters env (VcenterManager m) \<noteq> None \<or>
          snd (RegisterVirtualCenter env (VcenterManager m) new) \<noteq> None"
  proof (cases "UnregisterAllVirtualCenters env (VcenterManager m)")
    case (Some e)
    then show ?thesis unfolding r differ by simp
  next
    case None
    with that obtain vc' e where "RegisterVirtualCenter env (VcenterManager m) new = (vc', Some e)"
      by (cases "RegisterVirtualCenter env (VcenterManager m) new") auto
    from two[OF None this] show ?thesis by simp
  qed
  show ?thesis
  proof (intro conjI impI)
    assume "UnregisterAllVirtualCenters env (VcenterManager m) = Some e1"
    then show "ReloadConfiguration env m =
              (m, [CGetConfig, CGetVirtualCenterConfig cfg,
                   CUnregisterAllVirtualCenters (VcenterManager m)])"
      by (rule one)
  next
    assume "UnregisterAllVirtualCenters env (VcenterManager m) = None \<and>
          RegisterVirtualCenter env (VcenterManager m) new = (vcenter, Some e2)"
    then show "ReloadConfiguration env m =
              (m, [CGetConfig, CGetVirtualCenterConfig cfg,
                   CUnregisterAllVirtualCenters (VcenterManager m),
                   CRegisterVirtualCenter (VcenterManager m) new])"
      using two by blast
  next
    assume "UnregisterAllVirtualCenters env (VcenterManager m) = None \<and>
          RegisterVirtualCenter env (VcenterManager m) new = (vcenter, None)"
    then show "ReloadConfiguration env m =
              (\<lparr>VcenterConfig = new,
                CnsConfig = (case cfg of None \<Rightarrow> CnsConfig m | Some c \<Rightarrow> c),
                VolumeManager = GetManager env vcenter,
                VcenterManager = GetVirtualCenterManager env\<rparr>,
               [CGetConfig, CGetVirtualCenterConfig cfg,
                CUnregisterAllVirtualCenters (VcenterManager m),
                CRegisterVirtualCenter (VcenterManager m) new,
                CGetVirtualCenterManager,
                CResetManager (VolumeManager m) vcenter,
                CGetManager vcenter])"
      using three by blast
  next
    assume a: "UnregisterAllVirtualCenters env (VcenterManager m) \<noteq> None \<or>
          snd (RegisterVirtualCenter env (VcenterManager m) new) \<noteq> None"
    show "CreateVolume env' (fst (ReloadConfiguration env m)) creq = CreateVolume env' m creq"
      by (simp only: four [OF a])
    show "ControllerPublishVolume env' (fst (ReloadConfiguration env m)) preq =
              ControllerPublishVolume env' m preq"
      by (simp only: four [OF a])
  qed
qed

theorem reload_replaces_session_or_aborts_witness:
  "ReloadConfiguration ex_env_unregister_fails ex_manager =
     (ex_manager, [CGetConfig, CGetVirtualCenterConfig (Some ex_config),
                   CUnregisterAllVirtualCenters 1])
   \<and> ReloadConfiguration ex_env_register_fails ex_manager =
     (ex_manager, [CGetConfig, CGetVirtualCenterConfig (Some ex_config),
                   CUnregisterAllVirtualCenters 1, CRegisterVirtualCenter 1 ex_cfgB])
   \<and> ReloadConfiguration ex_env ex_manager =
     (\<lparr>VcenterConfig = ex_cfgB, CnsConfig = ex_config, VolumeManager = 2, VcenterManager = 1\<rparr>,
      [CGetConfig, CGetVirtualCenterConfig (Some ex_config),
       CUnregisterAllVirtualCenters 1, CRegisterVirtualCenter 1 ex_cfgB,
       CGetVirtualCenterManager, CResetManager 1 (Some \<lparr>Config = ex_cfgB\<rparr>),
       CGetManager (Some \<lparr>Config = ex_cfgB\<rparr>)])"
proof -
  have d: "Host (VcenterConfig ex_manager) \<noteq> Host ex_cfgB \<or>
      Username (VcenterConfig ex_manager) \<noteq> Username ex_cfgB \<or>
      Password (VcenterConfig ex_manager) \<noteq> Password ex_cfgB"
    by (simp add: ex_manager_def ex_cfgA_def ex_cfgB_def)
  have m: "VcenterManager ex_manager = 1" "VolumeManager ex_manager = 1"
    by (simp_all add: ex_manager_def)
  have g1: "GetConfig ex_env_unregister_fails = (Some ex_config, None)"
    and v1: "GetVirtualCenterConfig ex_env_unregister_fails (Some ex_config) = (Some ex_cfgB, None)"
    and u1: "UnregisterAllVirtualCenters ex_env_unregister_fails (VcenterManager ex_manager) =
             Some (Opaque ''logout failed'')"
    by (simp_all add: ex_env_unregister_fails_def ex_env_def)
  have g2: "GetConfig ex_env_register_fails = (Some ex_config, None)"
    and v2: "GetVirtualCenterConfig ex_env_register_fails (Some ex_config) = (Some ex_cfgB, None)"
    and u2: "UnregisterAllVirtualCenters ex_env_register_fails (VcenterManager ex_manager) = None
             \<and> RegisterVirtualCenter ex_env_register_fails (VcenterManager ex_manager) ex_cfgB =
                (None, Some (Opaque ''login failed''))"
    by (simp_all add: ex_env_register_fails_def ex_env_def)
  have g3: "GetConfig ex_env = (Some ex_config, None)"
    and v3: "GetVirtualCenterConfig ex_env (Some ex_config) = (Some ex_cfgB, None)"
    and u3: "UnregisterAllVirtualCenters ex_env (VcenterManager ex_manager) = None
             \<and> RegisterVirtualCenter ex_env (VcenterManager ex_manager) ex_cfgB =
                (Some \<lparr>Config = ex_cfgB\<rparr>, None)"
    and k3: "GetManager ex_env (Some \<lparr>Config = ex_cfgB\<rparr>) = 2" "GetVirtualCenterManager ex_env = 1"
    by (simp_all add: ex_env_def)
  from reload_replaces_session_or_aborts [OF g1 v1 d, where ?e1.0 = "Opaque ''logout failed''"] u1
  have one: "ReloadConfiguration ex_env_unregister_fails ex_manager =
     (ex_manager, [CGetConfig, CGetVirtualCenterConfig (Some ex_config),
                   CUnregisterAllVirtualCenters (VcenterManager ex_manager)])"
    by blast
  from reload_replaces_session_or_aborts [OF g2 v2 d, where vcenter = None
      and ?e2.0 = "Opaque ''login failed''"] u2
  have two: "ReloadConfiguration ex_env_register_fails ex_manager =
     (ex_manager, [CGetConfig, CGetVirtualCenterConfig (Some ex_config),
                   CUnregisterAllVirtualCenters (VcenterManager ex_manager),
                   CRegisterVirtualCenter (VcenterManager ex_manager) ex_cfgB])"
    by blast
  from reload_replaces_session_or_aborts [OF g3 v3 d,
      where vcenter = "Some \<lparr>Config = ex_cfgB\<rparr>"] u3
  have three: "ReloadConfiguration ex_env ex_manager =
     (\<lparr>VcenterConfig = ex_cfgB,
       CnsConfig = (case Some ex_config of None \<Rightarrow> CnsConfig ex_manager | Some c \<Rightarrow> c),
       VolumeManager = GetManager ex_env (Some \<lparr>Config = ex_cfgB\<rparr>),
       VcenterManager = GetVirtualCenterManager ex_env\<rparr>,
      [CGetConfig, CGetVirtualCenterConfig (Some ex_config),
       CUnregisterAllVirtualCenters (VcenterManager ex_manager),
       CRegisterVirtualCenter (VcenterManager ex_manager) ex_cfgB,
       CGetVirtualCenterManager,
       CResetManager (VolumeManager ex_manager) (Some \<lparr>Config = ex_cfgB\<rparr>),
       CGetManager (Some \<lparr>Config = ex_cfgB\<rparr>)])"
    by blast
  from one two three show ?thesis
    by (simp only: m k3 option.case simp_thms)
qed


section \<open>Properties of CreateVolume\<close>

text \<open>On the letters \<^verbatim>\<open>A\<close> to \<^verbatim>\<open>Z\<close>, \<open>toLowerChar\<close> adds 32 to the byte.\<close>

lemma toLowerChar_adds_32:
  assumes "65 \<le> (of_char c :: nat)" "(of_char c :: nat) \<le> 90"
  shows "(of_char (toLowerChar c) :: nat) = of_char c + 32"
proof (cases c)
  case (Char b0 b1 b2 b3 b4 b5 b6 b7)
  have b: "\<And>x. (of_bool x :: nat) \<le> 1" by simp
  from assms have "\<not> b7" unfolding Char by (cases b7) simp_all
  moreover from assms have "b6" unfolding Char
    using b[of b0] b[of b1] b[of b2] b[of b3] b[of b4] b[of b5]
    by (cases b6; cases b7) simp_all
  moreover from assms have "\<not> b5" unfolding Char
    using b[of b0] b[of b1] b[of b2] b[of b3] b[of b4]
    by (cases b5; cases b6; cases b7) simp_all
  ultimately show ?thesis using assms unfolding Char
    by (simp add: toLowerChar_def)
qed

lemma int64_id: "isInt64 x \<Longrightarrow> int64 x = x"
  by (simp add: isInt64_def int64_def)

lemma ceil_div_bounds:
  fixes v :: int
  shows "v \<le> - ((- v) div 1048576) * 1048576 \<and> (- ((- v) div 1048576) - 1) * 1048576 < v"
proof -
  define q where "q = (- v) div (1048576::int)"
  define r where "r = (- v) mod (1048576::int)"
  have "- v = q * 1048576 + r" "0 \<le> r" "r < 1048576"
    by (simp_all add: q_def r_def)
  then have "v \<le> - q * 1048576 \<and> (- q - 1) * 1048576 < v"
    by (simp add: algebra_simps)
  then show ?thesis by (simp only: q_def)
qed

lemma RoundUpSize_MB:
  assumes "isInt64 v"
  shows "RoundUpSize v MbInBytes = - ((- v) div 1048576)"
proof -
  from ceil_div_bounds [of v] assms have "isInt64 (- ((- v) div 1048576))"
    by (simp add: isInt64_def)
  then show ?thesis by (simp add: RoundUpSize_def MbInBytes_def int64_id)
qed

lemma volSizeBytesOf_eq:
  "volSizeBytesOf req =
     (case CapacityRange req of
        None \<Rightarrow> 10737418240
      | Some cr \<Rightarrow> if RequiredBytes cr = 0 then 10737418240 else RequiredBytes cr)"
  by (simp add: volSizeBytesOf_def DefaultGbDiskSize_def GbInBytes_def int64_def
      split: option.splits)

lemma volSizeBytesOf_int64:
  "(case CapacityRange req of None \<Rightarrow> True | Some cr \<Rightarrow> isInt64 (RequiredBytes cr)) \<Longrightarrow>
   isInt64 (volSizeBytesOf req)"
  by (auto simp add: volSizeBytesOf_eq isInt64_def split: option.splits)

lemma CapacityMB_createVolumeSpecOf:
  "CapacityMB (createVolumeSpecOf env req) = RoundUpSize (volSizeBytesOf req) MbInBytes"
  by (simp add: createVolumeSpecOf_def split: prod.splits)

lemma CreateVolume_success:
  assumes "fst (CreateVolume env m req) = (Some resp, None)"
  shows "\<exists>calls datastores.
           snd (CreateVolume env m req) =
             calls @ [CCreateBlockVolumeUtil m (createVolumeSpecOf env req) datastores]
         \<and> CapacityBytes (Volume resp) =
             int64 (CapacityMB (createVolumeSpecOf env req) * MbInBytes)"
  using assms
  by (auto simp add: CreateVolume_def Let_def split: option.splits prod.splits)

text \<open>
  C6: for a CreateVolume request that succeeds, the size in bytes is the required
  bytes of the capacity range, or 10 GiB when the range is absent or its required
  bytes are zero; the capacity sent to the volume manager is the least number of MB
  that holds this size; and the capacity in the response is that number of MB times
  the bytes of one MB, in \<^verbatim>\<open>int64\<close>. The product is exact when the size is at most
  \<open>2 ^ 63\<close> minus one MB.
\<close>

theorem create_volume_capacity_rounded:
  assumes "fst (CreateVolume env m req) = (Some resp, None)"
    and "case CapacityRange req of None \<Rightarrow> True | Some cr \<Rightarrow> isInt64 (RequiredBytes cr)"
  shows "volSizeBytesOf req =
           (case CapacityRange req of
              None \<Rightarrow> 10 * 1024 * 1024 * 1024
            | Some cr \<Rightarrow>
                if RequiredBytes cr = 0 then 10 * 1024 * 1024 * 1024 else RequiredBytes cr)
       \<and> (\<exists>calls datastores.
            snd (CreateVolume env m req) =
              calls @ [CCreateBlockVolumeUtil m (createVolumeSpecOf env req) datastores])
       \<and> volSizeBytesOf req \<le> CapacityMB (createVolumeSpecOf env req) * MbInBytes
       \<and> (CapacityMB (createVolumeSpecOf env req) - 1) * MbInBytes < volSizeBytesOf req
       \<and> CapacityBytes (Volume resp) =
            int64 (CapacityMB (createVolumeSpecOf env req) * MbInBytes)
       \<and> (volSizeBytesOf req \<le> 2 ^ 63 - MbInBytes \<longrightarrow>
            CapacityBytes (Volume resp) = CapacityMB (createVolumeSpecOf env req) * MbInBytes)"
proof -
  let ?v = "volSizeBytesOf req"
  let ?n = "CapacityMB (createVolumeSpecOf env req)"
  have v: "isInt64 ?v" using assms(2) by (rule volSizeBytesOf_int64)
  have n: "?n = - ((- ?v) div 1048576)"
    by (simp only: CapacityMB_createVolumeSpecOf RoundUpSize_MB [OF v])
  have b: "?v \<le> ?n * MbInBytes" "(?n - 1) * MbInBytes < ?v"
    using ceil_div_bounds [of ?v] unfolding n MbInBytes_def by simp_all
  from CreateVolume_success [OF assms(1)]
  have c: "\<exists>calls datastores. snd (CreateVolume env m req) =
              calls @ [CCreateBlockVolumeUtil m (createVolumeSpecOf env req) datastores]"
    and r: "CapacityBytes (Volume resp) = int64 (?n * MbInBytes)"
    by blast+
  have w: "CapacityBytes (Volume resp) = ?n * MbInBytes" if "?v \<le> 2 ^ 63 - MbInBytes"
  proof -
    from that b v have "isInt64 (?n * MbInBytes)"
      by (simp add: isInt64_def MbInBytes_def algebra_simps)
    then show ?thesis by (simp only: r int64_id)
  qed
  have e: "?v = (case CapacityRange req of
              None \<Rightarrow> 10 * 1024 * 1024 * 1024
            | Some cr \<Rightarrow>
                if RequiredBytes cr = 0 then 10 * 1024 * 1024 * 1024 else RequiredBytes cr)"
    by (simp add: volSizeBytesOf_eq split: option.splits)
  from e c b r w show ?thesis by blast
qed

theorem create_volume_capacity_rounded_witness:
  "fst (CreateVolume ex_env ex_manager
          (ex_create_req (Some \<lparr>RequiredBytes = 1, LimitBytes = 0\<rparr>) [])) =
     (Some \<lparr>Volume = \<lparr>Volume.VolumeId = ''volume-1'', CapacityBytes = 1048576,
                       VolumeContext = [(''type'', ''vSphere CNS Block Volume'')]\<rparr>\<rparr>, None)
   \<and> CapacityMB (createVolumeSpecOf ex_env
          (ex_create_req (Some \<lparr>RequiredBytes = 1, LimitBytes = 0\<rparr>) [])) = 1
   \<and> fst (CreateVolume ex_env ex_manager (ex_create_req None [])) =
     (Some \<lparr>Volume = \<lparr>Volume.VolumeId = ''volume-1'', CapacityBytes = 10737418240,
                       VolumeContext = [(''type'', ''vSphere CNS Block Volume'')]\<rparr>\<rparr>, None)
   \<and> CapacityMB (createVolumeSpecOf ex_env (ex_create_req None [])) = 10240"
proof -
  let ?small = "ex_create_req (Some \<lparr>RequiredBytes = 1, LimitBytes = 0\<rparr>) []"
  let ?none = "ex_create_req None []"
  let ?vol = "\<lambda>n. \<lparr>Volume = \<lparr>Volume.VolumeId = ''volume-1'', CapacityBytes = n,
                 VolumeContext = [(''type'', ''vSphere CNS Block Volume'')]\<rparr>\<rparr>"
  have s1: "fst (CreateVolume ex_env ex_manager ?small) = (Some (?vol 1048576), None)"
    by (simp add: CreateVolume_def createVolumeSpecOf_def volSizeBytesOf_def RoundUpSize_def
        MbInBytes_def int64_def ex_create_req_def ex_resolver_defs)
  have s2: "fst (CreateVolume ex_env ex_manager ?none) = (Some (?vol 10737418240), None)"
    by (simp add: CreateVolume_def createVolumeSpecOf_def volSizeBytesOf_def RoundUpSize_def
        MbInBytes_def GbInBytes_def DefaultGbDiskSize_def int64_def ex_create_req_def
        ex_resolver_defs)
  have h1: "case CapacityRange ?small of None \<Rightarrow> True | Some cr \<Rightarrow> isInt64 (RequiredBytes cr)"
    by (simp add: ex_create_req_def isInt64_def)
  have h2: "case CapacityRange ?none of None \<Rightarrow> True | Some cr \<Rightarrow> isInt64 (RequiredBytes cr)"
    by (simp add: ex_create_req_def)
  have v1: "volSizeBytesOf ?small = 1" and v2: "volSizeBytesOf ?none = 10737418240"
    by (simp_all add: volSizeBytesOf_def ex_create_req_def DefaultGbDiskSize_def GbInBytes_def
        int64_def)
  from create_volume_capacity_rounded [OF s1 h1]
  have "1 \<le> CapacityMB (createVolumeSpecOf ex_env ?small) * MbInBytes"
    and "(CapacityMB (createVolumeSpecOf ex_env ?small) - 1) * MbInBytes < 1"
    unfolding v1 by blast+
  then have n1: "CapacityMB (createVolumeSpecOf ex_env ?small) = 1"
    by (simp add: MbInBytes_def)
  from create_volume_capacity_rounded [OF s2 h2]
  have "10737418240 \<le> CapacityMB (createVolumeSpecOf ex_env ?none) * MbInBytes"
    and "(CapacityMB (createVolumeSpecOf ex_env ?none) - 1) * MbInBytes < 10737418240"
    unfolding v2 by blast+
  then have n2: "CapacityMB (createVolumeSpecOf ex_env ?none) = 10240"
    by (simp add: MbInBytes_def)
  from s1 n1 s2 n2 show ?thesis by (intro conjI)
qed

text \<open>
  C5: the parameter scan folds the case of every name, and the storage policy is read
  under the name as the request spells it, so \<^verbatim>\<open>STORAGEPOLICYID\<close> gives the policy
  \<^verbatim>\<open>p1\<close>. The affinity hint is read under the constant \<^verbatim>\<open>common.AttributeAffineToHost\<close>
  and not under the name found (line 216): a request that spells the name
  \<^verbatim>\<open>AffineToHost\<close> gets the empty hint, whatever the value of the constant, and only the
  spelling of the constant itself gives the value.
\<close>

theorem affinity_hint_lost_for_folded_key:
  "ToLower ''AffineToHost'' = AttributeAffineToHost ex_env
   \<and> AffineToHost (createVolumeSpecOf ex_env
        (ex_create_req None [(''AffineToHost'', ''host-22'')])) = []
   \<and> AffineToHost (createVolumeSpecOf (ex_env\<lparr>AttributeAffineToHost := key\<rparr>)
        (ex_create_req None [(''AffineToHost'', ''host-22'')])) = []
   \<and> AffineToHost (createVolumeSpecOf ex_env
        (ex_create_req None [(''affinetohost'', ''host-22'')])) = ''host-22''
   \<and> StoragePolicyID (createVolumeSpecOf ex_env
        (ex_create_req None [(''STORAGEPOLICYID'', ''p1'')])) = ''p1''"
  by (simp add: createVolumeSpecOf_def ex_create_req_def ex_env_def ToLower_def
      toLowerChar_def mapIndex_def)

end
